theory Spec2Isabelle
  imports Main "HOL-Library.Word"
begin

unbundle bit_operations_syntax

section \<open>The I2S module of the EVL audio driver (bcm2835-i2s-elk.c)\<close>

text \<open>
  The driver is a C file working on one device structure, a memory-mapped register block
  and the kernel's DMA engine. The embedding keeps the C functions' names and bodies.
  What the file only uses (bit masks and helper macros of bcm2835-i2s-elk.h, the kernel's
  DMA engine, clock and GPIO services, the peripheral itself) is a parameter of the
  functions: a record of constants, a record of kernel answers, a record of hardware
  answers. Every call into the DMA engine, every bus access and every log line is
  recorded in the machine state, so that orderings can be stated about them.
\<close>

subsection \<open>Machine integers and addresses\<close>

type_synonym u32 = "32 word"
type_synonym u64 = "64 word"

text \<open>Pointers, \<open>size_t\<close> and \<open>dma_addr_t\<close> of a 64-bit kernel; \<open>int\<close> is a 32-bit word
  read with \<open>sint\<close>.\<close>

type_synonym addr = "64 word"

subsection \<open>The register block\<close>

datatype reg =
    CS_A_REG | FIFO_A_REG | MODE_A_REG | RXC_A_REG | TXC_A_REG
  | DREQ_A_REG | INTEN_A_REG | INTSTC_A_REG | GRAY_REG

text \<open>The bit masks, field macros and configuration constants of the headers the file
  includes (bcm2835-i2s-elk.h and the per-hat configuration headers).\<close>

record i2s_consts =
  I2S_TXON :: u32
  I2S_RXON :: u32
  I2S_TXCLR :: u32
  I2S_RXCLR :: u32
  I2S_SYNC :: u32
  I2S_RXD :: u32
  I2S_STBY :: u32
  I2S_EN :: u32
  I2S_DMAEN :: u32
  I2S_INT_TXERR :: u32
  I2S_INT_RXERR :: u32
  I2S_CHEN :: u32
  I2S_CHWEX :: u32
  I2S_CLKI :: u32
  I2S_CLKM :: u32
  I2S_CLKDIS :: u32
  I2S_FSM :: u32
  I2S_FSI :: u32
  I2S_CHWID :: "u32 \<Rightarrow> u32"
  I2S_CH1 :: "u32 \<Rightarrow> u32"
  I2S_CH2 :: "u32 \<Rightarrow> u32"
  I2S_CH1_POS :: "u32 \<Rightarrow> u32"
  I2S_CH2_POS :: "u32 \<Rightarrow> u32"
  I2S_FLEN :: "u32 \<Rightarrow> u32"
  I2S_FSLEN :: "u32 \<Rightarrow> u32"
  I2S_RXTHR :: "u32 \<Rightarrow> u32"
  I2S_TXTHR :: "u32 \<Rightarrow> u32"
  I2S_TX_PANIC :: "u32 \<Rightarrow> u32"
  I2S_RX_PANIC :: "u32 \<Rightarrow> u32"
  I2S_TX :: "u32 \<Rightarrow> u32"
  I2S_RX :: "u32 \<Rightarrow> u32"
  DMA_TX_PANIC_THR :: u32
  DMA_RX_PANIC_THR :: u32
  DMA_THR_TX :: u32
  DMA_THR_RX :: u32
  HIFI_BERRY_SAMPLING_RATE :: u32
  I2S_START_CMD :: int
  RESERVED_BUFFER_SIZE_IN_PAGES :: u64
  PAGE_SIZE :: u64
  cv_gate_out_pins :: "nat list"
  cv_gate_in_pins :: "nat list"

text \<open>The peripheral. A read of a register other than the FIFO returns what the hardware
  shows at that moment, a function of the time (the number of bus accesses so far) and of
  the value last written; a read of the FIFO register pops the next captured sample.\<close>

record i2s_hw =
  reg_in :: "nat \<Rightarrow> reg \<Rightarrow> u32 \<Rightarrow> u32"
  rx_samples :: "nat \<Rightarrow> u32"

subsection \<open>The kernel services\<close>

datatype dma_transfer_direction =
  DMA_MEM_TO_MEM | DMA_MEM_TO_DEV | DMA_DEV_TO_MEM | DMA_DEV_TO_DEV | DMA_TRANS_NONE

datatype dma_status = DMA_COMPLETE | DMA_IN_PROGRESS | DMA_PAUSED | DMA_ERROR

datatype dma_ctrl_flag = DMA_PREP_INTERRUPT | DMA_CTRL_ACK | DMA_OOB_INTERRUPT

text \<open>The two channels of the device, \<open>audio_dev->dma_tx\<close> and \<open>audio_dev->dma_rx\<close>.\<close>

datatype dma_chan = Dma_tx | Dma_rx

record dma_slave_config =
  direction :: dma_transfer_direction
  src_addr :: addr
  dst_addr :: addr
  src_addr_width :: u32
  dst_addr_width :: u32
  src_maxburst :: u32
  dst_maxburst :: u32

datatype dma_callback = Bcm2835_i2s_dma_callback

datatype dma_callback_param = Audio_dev

record dma_async_tx_descriptor =
  desc_chan :: dma_chan
  desc_buf_addr :: addr
  desc_buf_len :: u64
  desc_period_len :: u64
  desc_dir :: dma_transfer_direction
  desc_flags :: "dma_ctrl_flag list"
  callback :: "dma_callback option"
  callback_param :: "dma_callback_param option"

text \<open>Every call the driver makes into the DMA engine, in the order it makes them.\<close>

datatype dma_call =
    Slave_config dma_chan dma_slave_config
  | Prep_dma_cyclic dma_chan
  | Submit dma_chan
  | Issue_pending dma_chan
  | Terminate_async dma_chan
  | Synchronize dma_chan
  | Tx_status dma_chan

text \<open>What the kernel answers: the DMA engine per channel (no function of the file makes
  the same call on the same channel twice), the clock framework to \<open>clk_set_rate\<close>, the
  GPIO inputs by pin.\<close>

record kernel_env =
  slave_config_rc :: "dma_chan \<Rightarrow> int"
  prep_cyclic_ok :: "dma_chan \<Rightarrow> bool"
  submit_cookie :: "dma_chan \<Rightarrow> int"
  terminate_rc :: "dma_chan \<Rightarrow> int"
  tx_status :: "dma_chan \<Rightarrow> dma_status"
  clk_set_rate_rc :: "u32 \<Rightarrow> int"
  gpio_get_value :: "nat \<Rightarrow> u32"

datatype kmsg =
    Printk string
  | Printk_discarded u32
  | Printk_dma_status dma_status

subsection \<open>The device structures\<close>

text \<open>Modelled from the spec: \<open>struct audio_evl_buffers\<close> and \<open>struct audio_evl_dev\<close> are
  declared in a header that is not part of the source file. The fields are the ones the
  source file uses; the spec's data model gives the buffer set a base memory address, a
  base device-visible address, a total length and a period length, with the playback
  buffer directly after the capture buffer in address space, so the bases are byte
  addresses and the lengths byte counts.\<close>

record audio_evl_buffers =
  cv_gate_out :: addr
  cv_gate_in :: addr
  tx_buf :: addr
  rx_buf :: addr
  buffer_len :: u64
  period_len :: u64
  tx_phys_addr :: addr
  rx_phys_addr :: addr

record audio_evl_dev =
  audio_hat :: string
  buffer :: audio_evl_buffers
  tx_desc :: "dma_async_tx_descriptor option"
  rx_desc :: "dma_async_tx_descriptor option"
  fifo_dma_addr :: addr
  addr_width :: u32
  dma_burst_size :: u32
  dma_tx_cookie :: int
  dma_rx_cookie :: int
  buffer_idx :: u32
  kinterrupts :: u64
  clk_rate :: u32
  cv_gate_enabled :: bool

text \<open>The machine: the device structure, and around it the registers as last written,
  the count of bus accesses, the count of samples popped from the RX FIFO, the memory the
  side-channel words live in, the GPIO outputs, the clock gate, the event flag, the calls
  made into the DMA engine and the kernel log.\<close>

record machine = audio_evl_dev +
  io_mem :: "reg \<Rightarrow> u32"
  io_clock :: nat
  rx_popped :: nat
  ram :: "addr \<Rightarrow> u32"
  gpio_out :: "nat \<Rightarrow> u32"
  clk_enabled :: bool
  event_flag :: nat
  dma_log :: "dma_call list"
  klog :: "kmsg list"

datatype fault = Null_pointer | Tmp_out_of_bounds nat | Store_outside_buffer addr

definition EIO :: int where "EIO = 5"
definition EBUSY :: int where "EBUSY = 16"
definition EINVAL :: int where "EINVAL = 22"

subsection \<open>Register access\<close>

text \<open>Modelled from the spec: the three register helpers (\<open>rpi_reg_read\<close>,
  \<open>rpi_reg_write\<close>, \<open>rpi_reg_update_bits\<close>) are declared in a header that is not part of
  the source file. The spec gives them as \<open>read(register)\<close>, \<open>write(register, value)\<close> and
  \<open>update_bits(register, mask, value)\<close>, a read-modify-write restricted to \<open>mask\<close>, with
  no caching: every call is a real device access.\<close>

definition rpi_reg_read :: "i2s_hw \<Rightarrow> reg \<Rightarrow> machine \<Rightarrow> u32 \<times> machine" where
  "rpi_reg_read hw r d =
     (if r = FIFO_A_REG
      then (rx_samples hw (rx_popped d),
            d\<lparr>io_clock := Suc (io_clock d), rx_popped := Suc (rx_popped d)\<rparr>)
      else (reg_in hw (io_clock d) r (io_mem d r), d\<lparr>io_clock := Suc (io_clock d)\<rparr>))"

definition rpi_reg_write :: "reg \<Rightarrow> u32 \<Rightarrow> machine \<Rightarrow> machine" where
  "rpi_reg_write r v d = d\<lparr>io_mem := (io_mem d)(r := v), io_clock := Suc (io_clock d)\<rparr>"

definition rpi_reg_update_bits :: "i2s_hw \<Rightarrow> reg \<Rightarrow> u32 \<Rightarrow> u32 \<Rightarrow> machine \<Rightarrow> machine" where
  "rpi_reg_update_bits hw r msk v d =
     (let old = fst (rpi_reg_read hw r d); d1 = snd (rpi_reg_read hw r d)
      in rpi_reg_write r ((old AND NOT msk) OR (v AND msk)) d1)"

subsection \<open>bcm2835_i2s_clear_fifos\<close>

text \<open>The loop \<open>while (--timeout) { read; if ((csreg & SYNC) != sync) break; }\<close>. The
  counter is a C \<open>int\<close>; the decrement comes before the test.\<close>

function clear_fifos_wait :: "i2s_consts \<Rightarrow> i2s_hw \<Rightarrow> u32 \<Rightarrow> u32 \<Rightarrow> machine \<Rightarrow> machine" where
  "clear_fifos_wait K hw sync timeout d =
     (if timeout - 1 = 0 then d
      else (let csreg = fst (rpi_reg_read hw CS_A_REG d); d1 = snd (rpi_reg_read hw CS_A_REG d)
            in if csreg AND I2S_SYNC K \<noteq> sync then d1
               else clear_fifos_wait K hw sync (timeout - 1) d1))"
  by pat_completeness auto
termination
proof -
  have dec: "unat (t - 2) < unat (t - 1)" if "t \<noteq> 1" for t :: u32
  proof -
    from that have nz: "t - 1 \<noteq> 0" by simp
    have "t - 2 = (t - 1) - 1" by simp
    then have "unat (t - 2) = unat (t - 1) - 1"
      using unat_minus_one [OF nz] by simp
    moreover have "0 < unat (t - 1)" using nz by (simp add: unat_gt_0)
    ultimately show ?thesis by simp
  qed
  show ?thesis
    by (relation "measure (\<lambda>(K, hw, sync, timeout, d). unat (timeout - 1))")
       (auto simp: dec)
qed

declare clear_fifos_wait.simps [simp del]

definition bcm2835_i2s_clear_fifos :: "i2s_consts \<Rightarrow> i2s_hw \<Rightarrow> bool \<Rightarrow> bool \<Rightarrow> machine \<Rightarrow> machine" where
  "bcm2835_i2s_clear_fifos K hw tx rx d =
     (let timeout = 1000;
          off = (if tx then I2S_TXON K else 0) OR (if rx then I2S_RXON K else 0);
          clr = (if tx then I2S_TXCLR K else 0) OR (if rx then I2S_RXCLR K else 0);
          csreg = fst (rpi_reg_read hw CS_A_REG d);
          d1 = snd (rpi_reg_read hw CS_A_REG d);
          i2s_active_state = csreg AND (I2S_RXON K OR I2S_TXON K);
          d2 = rpi_reg_update_bits hw CS_A_REG off 0 d1;
          d3 = rpi_reg_update_bits hw CS_A_REG clr clr d2;
          sync = fst (rpi_reg_read hw CS_A_REG d3) AND I2S_SYNC K;
          d4 = snd (rpi_reg_read hw CS_A_REG d3);
          d5 = rpi_reg_update_bits hw CS_A_REG (I2S_SYNC K) (NOT sync) d4;
          d6 = clear_fifos_wait K hw sync timeout d5
      in rpi_reg_update_bits hw CS_A_REG (I2S_RXON K OR I2S_TXON K) i2s_active_state d6)"

subsection \<open>bcm2835_i2s_synch_frame\<close>

text \<open>The discard loop has no bound: it ends when the two samples popped last are both
  zero, and not returning is the value \<open>None\<close>. \<open>tmp\<close> is the local array \<open>int32_t tmp[9]\<close>;
  the store \<open>tmp[discarded] = samples[0]\<close> past its end is the fault \<open>Tmp_out_of_bounds\<close>.
  The loop returns the count, the array and the machine.\<close>

partial_function (option) synch_frame_loop ::
  "i2s_consts \<Rightarrow> i2s_hw \<Rightarrow> u32 \<Rightarrow> u32 \<Rightarrow> u32 list \<Rightarrow> u32 \<Rightarrow> machine
     \<Rightarrow> (fault + u32 \<times> u32 list \<times> machine) option" where
  "synch_frame_loop K hw samples0 samples1 tmp discarded d =
     (if samples0 \<noteq> 0 \<or> samples1 \<noteq> 0
      then (if fst (rpi_reg_read hw CS_A_REG d) AND I2S_RXD K \<noteq> 0
            then (if unat discarded < length tmp
                  then synch_frame_loop K hw
                         (fst (rpi_reg_read hw FIFO_A_REG
                            (rpi_reg_write FIFO_A_REG 0 (snd (rpi_reg_read hw CS_A_REG d)))))
                         samples0
                         (tmp[unat discarded :=
                            fst (rpi_reg_read hw FIFO_A_REG
                              (rpi_reg_write FIFO_A_REG 0 (snd (rpi_reg_read hw CS_A_REG d))))])
                         (discarded + 1)
                         (snd (rpi_reg_read hw FIFO_A_REG
                            (rpi_reg_write FIFO_A_REG 0 (snd (rpi_reg_read hw CS_A_REG d)))))
                  else Some (Inl (Tmp_out_of_bounds (unat discarded))))
            else synch_frame_loop K hw samples0 samples1 tmp discarded
                   (snd (rpi_reg_read hw CS_A_REG d)))
      else Some (Inr (discarded, tmp, d)))"

definition bcm2835_i2s_synch_frame ::
  "i2s_consts \<Rightarrow> i2s_hw \<Rightarrow> machine \<Rightarrow> u32 \<Rightarrow> (fault + machine) option" where
  "bcm2835_i2s_synch_frame K hw d msk =
     (case synch_frame_loop K hw 0xff 0xff (replicate 9 0) 0
             (rpi_reg_update_bits hw CS_A_REG msk msk d) of
        None \<Rightarrow> None
      | Some (Inl f) \<Rightarrow> Some (Inl f)
      | Some (Inr (discarded, tmp, d1)) \<Rightarrow>
          Some (Inr (d1\<lparr>klog := klog d1 @ [Printk_discarded discarded]\<rparr>)))"

subsection \<open>bcm2835_i2s_start_stop\<close>

definition bcm2835_i2s_start_stop ::
  "i2s_consts \<Rightarrow> i2s_hw \<Rightarrow> machine \<Rightarrow> int \<Rightarrow> (fault + machine) option" where
  "bcm2835_i2s_start_stop K hw d cmd =
     (let msk = I2S_RXON K OR I2S_TXON K
      in if cmd = I2S_START_CMD K
         then (if audio_hat d = ''elk-pi''
               then bcm2835_i2s_synch_frame K hw d msk
               else Some (Inr (rpi_reg_update_bits hw CS_A_REG msk msk d)))
         else Some (Inr (rpi_reg_update_bits hw CS_A_REG msk 0 d)))"

subsection \<open>bcm2835_i2s_dma_callback\<close>

definition dmaengine_tx_status :: "kernel_env \<Rightarrow> dma_chan \<Rightarrow> machine \<Rightarrow> dma_status \<times> machine" where
  "dmaengine_tx_status kenv c d =
     (tx_status kenv c, d\<lparr>dma_log := dma_log d @ [Tx_status c]\<rparr>)"

definition cv_gates_relay :: "i2s_consts \<Rightarrow> kernel_env \<Rightarrow> machine \<Rightarrow> machine" where
  "cv_gates_relay K kenv d =
     (let outs = cv_gate_out_pins K; ins = cv_gate_in_pins K;
          w = ram d (cv_gate_out (buffer d));
          g = foldl (\<lambda>g (i, pin). g(pin := w AND push_bit i 1)) (gpio_out d)
                (zip [0..<length outs] outs);
          val = foldl (\<lambda>v (i, pin). v OR push_bit i (gpio_get_value kenv pin)) 0
                (zip [0..<length ins] ins)
      in d\<lparr>gpio_out := g, ram := (ram d)(cv_gate_in (buffer d) := val)\<rparr>)"

definition bcm2835_i2s_dma_callback :: "i2s_consts \<Rightarrow> kernel_env \<Rightarrow> machine \<Rightarrow> machine" where
  "bcm2835_i2s_dma_callback K kenv d =
     (let st_tx = fst (dmaengine_tx_status kenv Dma_tx d);
          d1 = snd (dmaengine_tx_status kenv Dma_tx d);
          d2 = (if st_tx = DMA_ERROR then d1\<lparr>klog := klog d1 @ [Printk_dma_status st_tx]\<rparr> else d1);
          st_rx = fst (dmaengine_tx_status kenv Dma_rx d2);
          d3 = snd (dmaengine_tx_status kenv Dma_rx d2);
          d4 = (if st_rx = DMA_ERROR then d3\<lparr>klog := klog d3 @ [Printk_dma_status st_rx]\<rparr> else d3);
          d5 = d4\<lparr>kinterrupts := kinterrupts d4 + 1\<rparr>;
          d6 = d5\<lparr>buffer_idx := NOT (buffer_idx d5) AND 0x1\<rparr>;
          d7 = d6\<lparr>event_flag := Suc (event_flag d6)\<rparr>
      in if cv_gate_enabled d7 then cv_gates_relay K kenv d7 else d7)"

subsection \<open>The cyclic DMA descriptors\<close>

definition dmaengine_prep_dma_cyclic ::
  "kernel_env \<Rightarrow> dma_chan \<Rightarrow> addr \<Rightarrow> u64 \<Rightarrow> u64 \<Rightarrow> dma_transfer_direction \<Rightarrow> dma_ctrl_flag list
     \<Rightarrow> machine \<Rightarrow> dma_async_tx_descriptor option \<times> machine" where
  "dmaengine_prep_dma_cyclic kenv c buf len period dir flags d =
     ((if prep_cyclic_ok kenv c
       then Some \<lparr>desc_chan = c, desc_buf_addr = buf, desc_buf_len = len,
                  desc_period_len = period, desc_dir = dir, desc_flags = flags,
                  callback = None, callback_param = None\<rparr>
       else None),
      d\<lparr>dma_log := dma_log d @ [Prep_dma_cyclic c]\<rparr>)"

definition bcm2835_i2s_dma_prepare_cyclic ::
  "kernel_env \<Rightarrow> machine \<Rightarrow> dma_transfer_direction \<Rightarrow> dma_async_tx_descriptor option \<times> machine" where
  "bcm2835_i2s_dma_prepare_cyclic kenv d dir =
     (let cfg0 = \<lparr>direction = dir, src_addr = 0, dst_addr = 0, src_addr_width = 0,
                  dst_addr_width = 0, src_maxburst = 0, dst_maxburst = 0\<rparr>;
          audio_buffers = buffer d;
          flags = [DMA_PREP_INTERRUPT, DMA_CTRL_ACK, DMA_OOB_INTERRUPT]
      in if dir = DMA_MEM_TO_DEV
         then (let cfg = cfg0\<lparr>dst_addr := fifo_dma_addr d, dst_addr_width := addr_width d,
                              dst_maxburst := dma_burst_size d\<rparr>;
                   d1 = d\<lparr>dma_log := dma_log d @ [Slave_config Dma_tx cfg]\<rparr>
               in if slave_config_rc kenv Dma_tx \<noteq> 0
                  then (None, d1\<lparr>klog := klog d1 @ [Printk ''DMA slave config failed'']\<rparr>)
                  else dmaengine_prep_dma_cyclic kenv Dma_tx (tx_phys_addr audio_buffers)
                         (buffer_len audio_buffers) (period_len audio_buffers) dir flags d1)
         else if dir = DMA_DEV_TO_MEM
         then (let cfg = cfg0\<lparr>src_addr := fifo_dma_addr d, src_addr_width := addr_width d,
                              src_maxburst := dma_burst_size d\<rparr>;
                   d1 = d\<lparr>dma_log := dma_log d @ [Slave_config Dma_rx cfg]\<rparr>
               in if slave_config_rc kenv Dma_rx \<noteq> 0
                  then (None, d1\<lparr>klog := klog d1 @ [Printk ''DMA slave config failed'']\<rparr>)
                  else dmaengine_prep_dma_cyclic kenv Dma_rx (rx_phys_addr audio_buffers)
                         (buffer_len audio_buffers) (period_len audio_buffers) dir flags d1)
         else (None, d\<lparr>klog := klog d @ [Printk ''unsupported dma direction'']\<rparr>))"

definition dmaengine_terminate_async :: "kernel_env \<Rightarrow> dma_chan \<Rightarrow> machine \<Rightarrow> int \<times> machine" where
  "dmaengine_terminate_async kenv c d =
     (terminate_rc kenv c, d\<lparr>dma_log := dma_log d @ [Terminate_async c]\<rparr>)"

definition dmaengine_synchronize :: "dma_chan \<Rightarrow> machine \<Rightarrow> machine" where
  "dmaengine_synchronize c d = d\<lparr>dma_log := dma_log d @ [Synchronize c]\<rparr>"

definition bcm2835_i2s_dma_prepare :: "kernel_env \<Rightarrow> machine \<Rightarrow> int \<times> machine" where
  "bcm2835_i2s_dma_prepare kenv d =
     (let txd = fst (bcm2835_i2s_dma_prepare_cyclic kenv d DMA_MEM_TO_DEV);
          d1 = (snd (bcm2835_i2s_dma_prepare_cyclic kenv d DMA_MEM_TO_DEV))\<lparr>tx_desc := txd\<rparr>
      in if txd = None
         then (- EBUSY, d1\<lparr>klog := klog d1 @ [Printk ''failed to get DMA TX descriptor'']\<rparr>)
         else (let rxd = fst (bcm2835_i2s_dma_prepare_cyclic kenv d1 DMA_DEV_TO_MEM);
                   d2 = (snd (bcm2835_i2s_dma_prepare_cyclic kenv d1 DMA_DEV_TO_MEM))\<lparr>rx_desc := rxd\<rparr>
               in case rxd of
                    None \<Rightarrow>
                      (- EBUSY,
                       snd (dmaengine_terminate_async kenv Dma_tx
                              (d2\<lparr>klog := klog d2 @ [Printk ''failed to get DMA RX descriptor'']\<rparr>)))
                  | Some desc \<Rightarrow>
                      (0, d2\<lparr>rx_desc := Some (desc\<lparr>callback := Some Bcm2835_i2s_dma_callback,
                                                     callback_param := Some Audio_dev\<rparr>)\<rparr>)))"

subsection \<open>bcm2835_i2s_submit_dma\<close>

definition dmaengine_submit ::
  "kernel_env \<Rightarrow> dma_async_tx_descriptor \<Rightarrow> machine \<Rightarrow> int \<times> machine" where
  "dmaengine_submit kenv desc d =
     (submit_cookie kenv (desc_chan desc),
      d\<lparr>dma_log := dma_log d @ [Submit (desc_chan desc)]\<rparr>)"

definition dma_submit_error :: "int \<Rightarrow> int" where
  "dma_submit_error cookie = (if cookie < 0 then cookie else 0)"

definition dma_async_issue_pending :: "dma_chan \<Rightarrow> machine \<Rightarrow> machine" where
  "dma_async_issue_pending c d = d\<lparr>dma_log := dma_log d @ [Issue_pending c]\<rparr>"

text \<open>The descriptors are pointers of the device structure: a null one cannot be
  submitted (the kernel would fault on it).\<close>

definition bcm2835_i2s_submit_dma :: "kernel_env \<Rightarrow> machine \<Rightarrow> fault + int \<times> machine" where
  "bcm2835_i2s_submit_dma kenv d =
     (case rx_desc d of
        None \<Rightarrow> Inl Null_pointer
      | Some rxd \<Rightarrow>
          (let d1 = (snd (dmaengine_submit kenv rxd d))\<lparr>dma_rx_cookie := fst (dmaengine_submit kenv rxd d)\<rparr>
           in if dma_submit_error (dma_rx_cookie d1) \<noteq> 0
              then Inr (- EIO, d1\<lparr>klog := klog d1 @ [Printk ''rx dmaengine_submit failed'']\<rparr>)
              else (case tx_desc d1 of
                      None \<Rightarrow> Inl Null_pointer
                    | Some txd \<Rightarrow>
                        (let d2 = (snd (dmaengine_submit kenv txd d1))
                                    \<lparr>dma_tx_cookie := fst (dmaengine_submit kenv txd d1)\<rparr>
                         in if dma_submit_error (dma_tx_cookie d2) \<noteq> 0
                            then Inr (- EIO, d2\<lparr>klog := klog d2 @ [Printk ''tx dmaengine_submit failed'']\<rparr>)
                            else Inr (0, dma_async_issue_pending Dma_tx
                                           (dma_async_issue_pending Dma_rx d2))))))"

subsection \<open>bcm2835_i2s_exit\<close>

definition bcm2835_i2s_exit :: "kernel_env \<Rightarrow> machine \<Rightarrow> int \<times> machine" where
  "bcm2835_i2s_exit kenv d =
     (let ret = fst (dmaengine_terminate_async kenv Dma_tx d);
          d1 = snd (dmaengine_terminate_async kenv Dma_tx d)
      in if ret < 0
         then (ret, d1\<lparr>klog := klog d1 @ [Printk ''dmaengine_terminate_async failed'']\<rparr>)
         else (let d2 = dmaengine_synchronize Dma_tx d1;
                   ret = fst (dmaengine_terminate_async kenv Dma_rx d2);
                   d3 = snd (dmaengine_terminate_async kenv Dma_rx d2)
               in if ret < 0
                  then (ret, d3\<lparr>klog := klog d3 @ [Printk ''dmaengine_terminate_async failed'']\<rparr>)
                  else (0, dmaengine_synchronize Dma_rx d3)))"

subsection \<open>bcm2835_i2s_configure, bcm2835_i2s_enable, bcm2835_i2s_clear_regs\<close>

text \<open>The locals of \<open>bcm2835_i2s_configure\<close> that its chain of \<open>strcmp\<close> tests on the
  hat's name assigns.\<close>

record configure_locals =
  bit_clock_master :: bool
  frame_sync_master :: bool
  mode :: u32
  ch1_pos :: u32
  ch2_pos :: u32

definition configure_hat ::
  "i2s_consts \<Rightarrow> kernel_env \<Rightarrow> u32 \<Rightarrow> machine \<Rightarrow> configure_locals \<times> machine" where
  "configure_hat K kenv frame_length d =
     (if audio_hat d = ''hifi-berry''
      then (let bclk_rate = frame_length * HIFI_BERRY_SAMPLING_RATE K;
                d1 = (if clk_set_rate_rc kenv bclk_rate \<noteq> 0
                      then d\<lparr>klog := klog d @ [Printk ''clk_set_rate failed'']\<rparr> else d)
            in (\<lparr>bit_clock_master = True, frame_sync_master = True, mode = I2S_CLKI K,
                 ch1_pos = 1, ch2_pos = 33\<rparr>,
                d1\<lparr>clk_rate := bclk_rate, clk_enabled := True\<rparr>))
      else if audio_hat d = ''hifi-berry-pro''
      then (\<lparr>bit_clock_master = False, frame_sync_master = False, mode = 0,
              ch1_pos = 1, ch2_pos = 33\<rparr>, d)
      else (\<lparr>bit_clock_master = False, frame_sync_master = False, mode = 0,
              ch1_pos = 0, ch2_pos = 32\<rparr>, d))"

definition bcm2835_i2s_configure :: "i2s_consts \<Rightarrow> i2s_hw \<Rightarrow> kernel_env \<Rightarrow> machine \<Rightarrow> machine" where
  "bcm2835_i2s_configure K hw kenv d =
     (let data_length = 32;
          slots = 2;
          slot_width = 32;
          frame_length = slots * slot_width;
          format0 = I2S_CHEN K OR I2S_CHWEX K OR I2S_CHWID K ((data_length - 8) AND 0xf);
          framesync_length = frame_length div 2;
          loc = fst (configure_hat K kenv frame_length d);
          d1 = snd (configure_hat K kenv frame_length d);
          format = I2S_CH1 K format0 OR I2S_CH2 K format0;
          mode1 = mode loc OR I2S_FLEN K (frame_length - 1) OR I2S_FSLEN K framesync_length;
          mode2 = (if \<not> bit_clock_master loc
                   then mode1 OR (I2S_CLKDIS K OR I2S_CLKM K OR I2S_CLKI K) else mode1);
          mode3 = (if \<not> frame_sync_master loc then mode2 OR I2S_FSM K else mode2);
          mode4 = mode3 OR I2S_FSI K;
          d2 = rpi_reg_write MODE_A_REG mode4 d1;
          d3 = rpi_reg_write RXC_A_REG
                 (format OR I2S_CH1_POS K (ch1_pos loc) OR I2S_CH2_POS K (ch2_pos loc)) d2;
          d4 = rpi_reg_write TXC_A_REG
                 (format OR I2S_CH1_POS K (ch1_pos loc) OR I2S_CH2_POS K (ch2_pos loc)) d3;
          d5 = rpi_reg_update_bits hw MODE_A_REG (I2S_CLKDIS K) 0 d4;
          d6 = rpi_reg_update_bits hw CS_A_REG
                 (I2S_RXTHR K 1 OR I2S_TXTHR K 1 OR I2S_DMAEN K) 0xffffffff d5
      in rpi_reg_update_bits hw DREQ_A_REG
           (I2S_TX_PANIC K (DMA_TX_PANIC_THR K) OR I2S_RX_PANIC K (DMA_RX_PANIC_THR K)
              OR I2S_TX K (DMA_THR_TX K) OR I2S_RX K (DMA_THR_RX K))
           0xffffffff d6)"

definition bcm2835_i2s_enable :: "i2s_consts \<Rightarrow> i2s_hw \<Rightarrow> machine \<Rightarrow> machine" where
  "bcm2835_i2s_enable K hw d =
     (let d1 = rpi_reg_update_bits hw CS_A_REG (I2S_STBY K) (I2S_STBY K) d;
          d2 = rpi_reg_update_bits hw INTEN_A_REG (I2S_INT_TXERR K OR I2S_INT_RXERR K)
                 (I2S_INT_TXERR K OR I2S_INT_RXERR K) d1
      in rpi_reg_update_bits hw CS_A_REG (I2S_EN K) (I2S_EN K) d2)"

definition bcm2835_i2s_clear_regs :: "machine \<Rightarrow> machine" where
  "bcm2835_i2s_clear_regs d =
     foldl (\<lambda>m r. rpi_reg_write r 0 m) d
       [CS_A_REG, MODE_A_REG, RXC_A_REG, TXC_A_REG, DREQ_A_REG, INTEN_A_REG, INTSTC_A_REG,
        GRAY_REG]"

subsection \<open>bcm2835_i2s_buffers_setup\<close>

text \<open>The loop \<open>for (i = 0; i < BCM2835_DMA_THR_TX + audio_channels; i++)\<close> writes one zero
  word to the FIFO per round; it runs as many rounds as the bound, none when the bound is
  not positive.\<close>

primrec fifo_prime :: "nat \<Rightarrow> machine \<Rightarrow> machine" where
  "fifo_prime 0 d = d"
| "fifo_prime (Suc n) d = fifo_prime n (rpi_reg_write FIFO_A_REG 0 d)"

text \<open>The geometry: \<open>audio_buffer_size * audio_channels\<close> is a product of two \<open>int\<close>,
  widened to \<open>size_t\<close> for the product with \<open>sizeof(uint32_t)\<close>.\<close>

definition buffers_geometry :: "u32 \<Rightarrow> u32 \<Rightarrow> audio_evl_buffers \<Rightarrow> audio_evl_buffers" where
  "buffers_geometry audio_buffer_size audio_channels audio_buffer =
     (let dummy_phys_addr = rx_phys_addr audio_buffer;
          b1 = audio_buffer\<lparr>period_len := scast (audio_buffer_size * audio_channels) * 4\<rparr>;
          b2 = b1\<lparr>buffer_len := 2 * period_len b1\<rparr>;
          b3 = b2\<lparr>tx_buf := rx_buf b2 + buffer_len b2\<rparr>;
          b4 = b3\<lparr>tx_phys_addr := dummy_phys_addr + buffer_len b3\<rparr>;
          b5 = b4\<lparr>cv_gate_out := rx_buf b4 + buffer_len b4 * 2\<rparr>
      in b5\<lparr>cv_gate_in := rx_buf b5 + buffer_len b5 * 2 + 4\<rparr>)"

text \<open>The memory of the buffer set is the one region that \<open>bcm2835_i2s_init\<close> allocates
  at \<open>rx_buf\<close>, of \<open>RESERVED_BUFFER_SIZE_IN_PAGES * PAGE_SIZE\<close> bytes. The function checks
  no size against it. A store of a 32-bit word at an address is inside the region when
  the four bytes from the address on are; the store \<open>*audio_buffer->cv_gate_out = 0x0f\<close>
  at an address outside it is the fault \<open>Store_outside_buffer\<close>.\<close>

definition store_in_buffer :: "i2s_consts \<Rightarrow> audio_evl_buffers \<Rightarrow> addr \<Rightarrow> bool" where
  "store_in_buffer K b a =
     (unat (a - rx_buf b) + 4 \<le> unat (RESERVED_BUFFER_SIZE_IN_PAGES K * PAGE_SIZE K))"

definition bcm2835_i2s_buffers_setup ::
  "i2s_consts \<Rightarrow> i2s_hw \<Rightarrow> kernel_env \<Rightarrow> u32 \<Rightarrow> u32 \<Rightarrow> machine \<Rightarrow> fault + int \<times> machine" where
  "bcm2835_i2s_buffers_setup K hw kenv audio_buffer_size audio_channels d =
     (let audio_buffer = buffers_geometry audio_buffer_size audio_channels (buffer d)
      in if \<not> store_in_buffer K audio_buffer (cv_gate_out audio_buffer)
         then Inl (Store_outside_buffer (cv_gate_out audio_buffer))
         else
           (let d1 = d\<lparr>buffer := audio_buffer, ram := (ram d)(cv_gate_out audio_buffer := 0x0f)\<rparr>;
                ret = fst (bcm2835_i2s_dma_prepare kenv d1);
                d2 = snd (bcm2835_i2s_dma_prepare kenv d1)
            in if ret \<noteq> 0
               then Inr (- EINVAL, d2\<lparr>klog := klog d2 @ [Printk ''dma_prepare failed'']\<rparr>)
               else (let d3 = bcm2835_i2s_clear_regs d2;
                         d4 = bcm2835_i2s_configure K hw kenv d3;
                         d5 = bcm2835_i2s_enable K hw d4;
                         d6 = bcm2835_i2s_clear_fifos K hw True True d5;
                         d7 = fifo_prime (nat (sint (DMA_THR_TX K + audio_channels))) d6
                     in case bcm2835_i2s_submit_dma kenv d7 of
                          Inl f \<Rightarrow> Inl f
                        | Inr (ret, d8) \<Rightarrow>
                            if ret \<noteq> 0
                            then Inr (ret, d8\<lparr>klog := klog d8 @ [Printk ''submit_dma failed'']\<rparr>)
                            else Inr (0, d8))))"

subsection \<open>Notions the properties are stated with\<close>

text \<open>The calls into the DMA engine that a run from \<open>d\<close> to \<open>d'\<close> added.\<close>

definition dma_trace :: "machine \<Rightarrow> machine \<Rightarrow> dma_call list" where
  "dma_trace d d' = drop (length (dma_log d)) (dma_log d')"

text \<open>\<open>b\<close> does not occur in \<open>xs\<close> before the first \<open>a\<close>.\<close>

definition happens_before :: "'a \<Rightarrow> 'a \<Rightarrow> 'a list \<Rightarrow> bool" where
  "happens_before a b xs = (b \<notin> set (takeWhile (\<lambda>x. x \<noteq> a) xs))"

text \<open>What the DMA path of the driver reads of the device: the buffer set and the two
  descriptors.\<close>

definition dma_view ::
  "machine \<Rightarrow> audio_evl_buffers \<times> dma_async_tx_descriptor option \<times> dma_async_tx_descriptor option" where
  "dma_view d = (buffer d, tx_desc d, rx_desc d)"

text \<open>A valid pair of period frames and channel count: both positive; the length of the
  double buffer in bytes, \<open>2 * frames * channels * 4\<close>, representable as a C \<open>int\<close> (so
  that no product of the computation wraps around); and the whole layout, the capture
  double buffer, the playback double buffer and the two side-channel words after them,
  inside the region reserved at \<open>rx_buf\<close>.\<close>

definition valid_geometry :: "i2s_consts \<Rightarrow> u32 \<Rightarrow> u32 \<Rightarrow> bool" where
  "valid_geometry K frames chans =
     (0 < sint frames \<and> 0 < sint chans \<and> 2 * (sint frames * sint chans * 4) < 2 ^ 31
      \<and> 2 * (2 * (sint frames * sint chans * 4)) + 8
            \<le> uint (RESERVED_BUFFER_SIZE_IN_PAGES K * PAGE_SIZE K))"

text \<open>The channel a call into the DMA engine is about.\<close>

fun call_chan :: "dma_call \<Rightarrow> dma_chan" where
  "call_chan (Slave_config c cfg) = c"
| "call_chan (Prep_dma_cyclic c) = c"
| "call_chan (Submit c) = c"
| "call_chan (Issue_pending c) = c"
| "call_chan (Terminate_async c) = c"
| "call_chan (Synchronize c) = c"
| "call_chan (Tx_status c) = c"

text \<open>The \<open>k\<close>-th read of the poll loop started in \<open>d\<close> shows a SYNC bit other than the
  recorded one; and the number of reads a loop with the given budget makes: one more than
  the index of the first such read, or \<open>budget - 1\<close> when there is none among them.\<close>

definition sync_changed :: "i2s_consts \<Rightarrow> i2s_hw \<Rightarrow> u32 \<Rightarrow> machine \<Rightarrow> nat \<Rightarrow> bool" where
  "sync_changed K hw sync d k =
     (reg_in hw (io_clock d + k) CS_A_REG (io_mem d CS_A_REG) AND I2S_SYNC K \<noteq> sync)"

definition sync_polls :: "i2s_consts \<Rightarrow> i2s_hw \<Rightarrow> u32 \<Rightarrow> machine \<Rightarrow> nat \<Rightarrow> nat" where
  "sync_polls K hw sync d budget =
     (case find (sync_changed K hw sync d) [0..<budget - 1] of
        None \<Rightarrow> budget - 1
      | Some k \<Rightarrow> Suc k)"

text \<open>The samples the discard loop started in \<open>d\<close> will pop, counted from 0, and a pair of
  consecutive zero samples at positions \<open>n\<close> and \<open>n + 1\<close> of a stream.\<close>

definition rx_stream :: "i2s_hw \<Rightarrow> machine \<Rightarrow> nat \<Rightarrow> u32" where
  "rx_stream hw d i = rx_samples hw (rx_popped d + i)"

definition zero_pair_at :: "(nat \<Rightarrow> u32) \<Rightarrow> nat \<Rightarrow> bool" where
  "zero_pair_at s n = (s n = 0 \<and> s (Suc n) = 0)"

text \<open>At time \<open>t\<close> the status register shows the RX-data-available flag to the discard
  loop running on \<open>d\<close>; and the machine after the round of the loop that polled at time
  \<open>t\<close> and saw the flag: one status read, one zero word pushed, one sample popped.\<close>

definition rx_ready :: "i2s_consts \<Rightarrow> i2s_hw \<Rightarrow> machine \<Rightarrow> nat \<Rightarrow> bool" where
  "rx_ready K hw d t = (reg_in hw t CS_A_REG (io_mem d CS_A_REG) AND I2S_RXD K \<noteq> 0)"

definition after_pop :: "machine \<Rightarrow> nat \<Rightarrow> machine" where
  "after_pop d t =
     d\<lparr>io_mem := (io_mem d)(FIFO_A_REG := 0), io_clock := Suc (Suc (Suc t)),
       rx_popped := Suc (rx_popped d)\<rparr>"

subsection \<open>A concrete instance\<close>

text \<open>The register layout of the BCM2835 PCM/I2S block and sample thresholds, a kernel
  that grants every request, a peripheral that always has a sample ready, and an idle
  machine: the inputs of the closed examples below.\<close>

definition bcm2835_consts :: i2s_consts where
  "bcm2835_consts =
     \<lparr>I2S_TXON = 0x4, I2S_RXON = 0x2, I2S_TXCLR = 0x8, I2S_RXCLR = 0x10,
      I2S_SYNC = 0x1000000, I2S_RXD = 0x100000, I2S_STBY = 0x2000000, I2S_EN = 0x1,
      I2S_DMAEN = 0x200, I2S_INT_TXERR = 0x4, I2S_INT_RXERR = 0x8,
      I2S_CHEN = 0x4000, I2S_CHWEX = 0x8000,
      I2S_CLKI = 0x400000, I2S_CLKM = 0x800000, I2S_CLKDIS = 0x10000000,
      I2S_FSM = 0x200000, I2S_FSI = 0x100000,
      I2S_CHWID = (\<lambda>v. v),
      I2S_CH1 = (\<lambda>v. push_bit 16 v), I2S_CH2 = (\<lambda>v. v),
      I2S_CH1_POS = (\<lambda>v. push_bit 16 (push_bit 4 v)), I2S_CH2_POS = (\<lambda>v. push_bit 4 v),
      I2S_FLEN = (\<lambda>v. push_bit 10 v), I2S_FSLEN = (\<lambda>v. v),
      I2S_RXTHR = (\<lambda>v. push_bit 7 v), I2S_TXTHR = (\<lambda>v. push_bit 5 v),
      I2S_TX_PANIC = (\<lambda>v. push_bit 24 v), I2S_RX_PANIC = (\<lambda>v. push_bit 16 v),
      I2S_TX = (\<lambda>v. push_bit 8 v), I2S_RX = (\<lambda>v. v),
      DMA_TX_PANIC_THR = 0x10, DMA_RX_PANIC_THR = 0x30, DMA_THR_TX = 0x30, DMA_THR_RX = 0x20,
      HIFI_BERRY_SAMPLING_RATE = 48000, I2S_START_CMD = 1,
      RESERVED_BUFFER_SIZE_IN_PAGES = 10, PAGE_SIZE = 4096,
      cv_gate_out_pins = [17, 27], cv_gate_in_pins = [22, 23]\<rparr>"

definition granting_kernel :: kernel_env where
  "granting_kernel =
     \<lparr>slave_config_rc = (\<lambda>c. 0), prep_cyclic_ok = (\<lambda>c. True), submit_cookie = (\<lambda>c. 1),
      terminate_rc = (\<lambda>c. 0), tx_status = (\<lambda>c. DMA_IN_PROGRESS),
      clk_set_rate_rc = (\<lambda>r. 0), gpio_get_value = (\<lambda>p. 0)\<rparr>"

definition tx_desc_refused :: kernel_env where
  "tx_desc_refused = granting_kernel\<lparr>prep_cyclic_ok := (\<lambda>c. c = Dma_rx)\<rparr>"

definition rx_desc_refused :: kernel_env where
  "rx_desc_refused = granting_kernel\<lparr>prep_cyclic_ok := (\<lambda>c. c = Dma_tx)\<rparr>"

definition tx_terminate_fails :: kernel_env where
  "tx_terminate_fails = granting_kernel\<lparr>terminate_rc := (\<lambda>c. if c = Dma_tx then - EINVAL else 0)\<rparr>"

definition ready_hw :: "(nat \<Rightarrow> u32) \<Rightarrow> i2s_hw" where
  "ready_hw samples = \<lparr>reg_in = (\<lambda>t r v. v OR 0x100000), rx_samples = samples\<rparr>"

text \<open>Sample streams: two, nine and ten non-zero samples, and then zeros.\<close>

definition two_then_zeros :: "nat \<Rightarrow> u32" where
  "two_then_zeros i = (if i < 2 then 7 else 0)"

definition nine_then_zeros :: "nat \<Rightarrow> u32" where
  "nine_then_zeros i = (if i < 9 then 1 else 0)"

definition ten_then_zeros :: "nat \<Rightarrow> u32" where
  "ten_then_zeros i = (if i < 10 then 3 else 0)"

definition idle_machine :: machine where
  "idle_machine =
     \<lparr>audio_hat = ''elk-pi'',
      buffer = \<lparr>cv_gate_out = 0, cv_gate_in = 0, tx_buf = 0, rx_buf = 0x1000, buffer_len = 0,
                period_len = 0, tx_phys_addr = 0, rx_phys_addr = 0x80000000\<rparr>,
      tx_desc = None, rx_desc = None, fifo_dma_addr = 0x7e203004, addr_width = 4,
      dma_burst_size = 2, dma_tx_cookie = 0, dma_rx_cookie = 0, buffer_idx = 0,
      kinterrupts = 0, clk_rate = 0, cv_gate_enabled = False,
      io_mem = (\<lambda>r. 0), io_clock = 0, rx_popped = 0, ram = (\<lambda>a. 0), gpio_out = (\<lambda>p. 0),
      clk_enabled = False, event_flag = 0, dma_log = [], klog = []\<rparr>"

definition hifi_berry_machine :: machine where
  "hifi_berry_machine = idle_machine\<lparr>audio_hat := ''hifi-berry''\<rparr>"

text \<open>The machine after one run of the descriptor preparation that the kernel granted in
  full: both descriptors obtained.\<close>

definition prepared_machine :: machine where
  "prepared_machine = snd (bcm2835_i2s_dma_prepare granting_kernel idle_machine)"

section \<open>Properties\<close>

subsection \<open>Register access\<close>

lemma read_cs:
  "rpi_reg_read hw CS_A_REG d
     = (reg_in hw (io_clock d) CS_A_REG (io_mem d CS_A_REG), d\<lparr>io_clock := Suc (io_clock d)\<rparr>)"
  by (simp add: rpi_reg_read_def)

lemma update_bits_mem:
  "io_mem (rpi_reg_update_bits hw r m v d) r = (fst (rpi_reg_read hw r d) AND NOT m) OR (v AND m)"
  by (simp add: rpi_reg_update_bits_def rpi_reg_write_def Let_def)

lemma restore_bits: "((old AND NOT m) OR ((c AND m) AND m)) AND m = c AND (m::u32)"
  by (auto simp: bit_eq_iff bit_and_iff bit_or_iff bit_not_iff)

lemma and_submask_right: "x AND (a OR b) = y AND (a OR b) \<Longrightarrow> x AND b = y AND (b::u32)"
  by (auto simp: bit_eq_iff bit_and_iff bit_or_iff)

lemma and_submask_left: "x AND (a OR b) = y AND (a OR b) \<Longrightarrow> x AND a = y AND (a::u32)"
  by (auto simp: bit_eq_iff bit_and_iff bit_or_iff)

subsection \<open>The enable bits across bcm2835_i2s_clear_fifos\<close>

lemma clear_fifos_mask:
  "io_mem (bcm2835_i2s_clear_fifos K hw tx rx d) CS_A_REG AND (I2S_RXON K OR I2S_TXON K)
     = fst (rpi_reg_read hw CS_A_REG d) AND (I2S_RXON K OR I2S_TXON K)"
  unfolding bcm2835_i2s_clear_fifos_def Let_def
  by (simp only: update_bits_mem restore_bits)

text \<open>
  Claim C5. Whatever the TX-enable and RX-enable bits of the control/status register are
  when \<open>bcm2835_i2s_clear_fifos\<close> reads it on entry, whatever \<open>tx\<close> and \<open>rx\<close> are and
  whatever the hardware shows while the function polls (so whether the poll runs out of
  its budget or leaves early), the register as the function leaves it has the two enable
  bits as they were read on entry.
\<close>

theorem clear_fifos_restores_enable_bits:
  "io_mem (bcm2835_i2s_clear_fifos K hw tx rx d) CS_A_REG AND I2S_TXON K
     = fst (rpi_reg_read hw CS_A_REG d) AND I2S_TXON K
   \<and> io_mem (bcm2835_i2s_clear_fifos K hw tx rx d) CS_A_REG AND I2S_RXON K
     = fst (rpi_reg_read hw CS_A_REG d) AND I2S_RXON K"
  using clear_fifos_mask [of K hw tx rx d]
  by (blast intro: and_submask_right and_submask_left)

text \<open>When the hardware shows the two enable bits as they were last written, a read of the
  register after the call shows them as the register held them before the call.\<close>

lemma clear_fifos_enable_bits_read_back:
  assumes "\<forall>t v. reg_in hw t CS_A_REG v AND (I2S_RXON K OR I2S_TXON K)
             = v AND (I2S_RXON K OR I2S_TXON K)"
  shows "fst (rpi_reg_read hw CS_A_REG (bcm2835_i2s_clear_fifos K hw tx rx d))
             AND (I2S_RXON K OR I2S_TXON K)
           = io_mem d CS_A_REG AND (I2S_RXON K OR I2S_TXON K)"
proof -
  have "fst (rpi_reg_read hw CS_A_REG (bcm2835_i2s_clear_fifos K hw tx rx d))
             AND (I2S_RXON K OR I2S_TXON K)
          = io_mem (bcm2835_i2s_clear_fifos K hw tx rx d) CS_A_REG AND (I2S_RXON K OR I2S_TXON K)"
    using assms by (simp add: read_cs)
  also have "\<dots> = fst (rpi_reg_read hw CS_A_REG d) AND (I2S_RXON K OR I2S_TXON K)"
    by (rule clear_fifos_mask)
  also have "\<dots> = io_mem d CS_A_REG AND (I2S_RXON K OR I2S_TXON K)"
    using assms by (simp add: read_cs)
  finally show ?thesis .
qed

subsection \<open>The poll loop of bcm2835_i2s_clear_fifos\<close>

lemma find_upt_Suc:
  "find P [0..<Suc n] = (if P 0 then Some 0 else map_option Suc (find (\<lambda>k. P (Suc k)) [0..<n]))"
proof -
  have shift: "find P (map Suc xs) = map_option Suc (find (\<lambda>k. P (Suc k)) xs)" for xs
    by (induction xs) simp_all
  have "[0..<Suc n] = 0 # map Suc [0..<n]"
    by (simp add: upt_conv_Cons map_Suc_upt del: upt_Suc)
  then show ?thesis by (simp add: shift del: upt_Suc)
qed

lemma sync_changed_Suc:
  "sync_changed K hw sync (d\<lparr>io_clock := Suc (io_clock d)\<rparr>)
     = (\<lambda>k. sync_changed K hw sync d (Suc k))"
  by (rule ext) (simp add: sync_changed_def)

lemma clear_fifos_wait_polls:
  "unat timeout = Suc n \<Longrightarrow>
     clear_fifos_wait K hw sync timeout d
       = d\<lparr>io_clock := io_clock d + sync_polls K hw sync d (Suc n)\<rparr>"
proof (induction n arbitrary: timeout d)
  case 0
  then have "timeout = 1" by (simp add: word_unat_eq_iff)
  then show ?case
    by (simp add: clear_fifos_wait.simps [of K hw sync 1 d] sync_polls_def)
next
  case (Suc n)
  then have nz: "timeout \<noteq> 0" by auto
  from Suc.prems have t1: "unat (timeout - 1) = Suc n"
    by (simp add: unat_minus_one [OF nz])
  then have ne: "timeout - 1 \<noteq> 0" by auto
  let ?d1 = "d\<lparr>io_clock := Suc (io_clock d)\<rparr>"
  show ?case
  proof (cases "sync_changed K hw sync d 0")
    case True
    then show ?thesis
      using ne
      by (simp add: clear_fifos_wait.simps [of K hw sync timeout d] read_cs Let_def
            sync_polls_def find_upt_Suc sync_changed_def del: upt_Suc)
  next
    case False
    have "clear_fifos_wait K hw sync timeout d = clear_fifos_wait K hw sync (timeout - 1) ?d1"
      using ne False
      by (simp add: clear_fifos_wait.simps [of K hw sync timeout d] read_cs Let_def
            sync_changed_def)
    also have "\<dots> = ?d1\<lparr>io_clock := io_clock ?d1 + sync_polls K hw sync ?d1 (Suc n)\<rparr>"
      by (rule Suc.IH [OF t1])
    also have "\<dots> = d\<lparr>io_clock := io_clock d + sync_polls K hw sync d (Suc (Suc n))\<rparr>"
      using False
      by (simp add: sync_polls_def find_upt_Suc [of _ n] sync_changed_Suc
            split: option.splits del: upt_Suc)
    finally show ?thesis .
  qed
qed

lemma sync_polls_le: "sync_polls K hw sync d budget \<le> budget - 1"
proof (cases "find (sync_changed K hw sync d) [0..<budget - 1]")
  case None
  then show ?thesis by (simp add: sync_polls_def)
next
  case (Some k)
  then have "k \<in> set [0..<budget - 1]"
    by (auto simp: find_Some_iff)
  with Some show ?thesis by (simp add: sync_polls_def)
qed

text \<open>What \<open>sync_polls\<close> counts: the loop leaves at the first changed read, and runs
  its budget out when there is none.\<close>

lemma sync_polls_first_change:
  assumes "k < budget - 1" "sync_changed K hw sync d k" "\<forall>j<k. \<not> sync_changed K hw sync d j"
  shows "sync_polls K hw sync d budget = Suc k"
proof -
  have "find (sync_changed K hw sync d) [0..<budget - 1] = Some k"
    using assms by (auto simp: find_Some_iff intro!: exI [where x = k])
  then show ?thesis by (simp add: sync_polls_def)
qed

lemma sync_polls_no_change:
  assumes "\<forall>j<budget - 1. \<not> sync_changed K hw sync d j"
  shows "sync_polls K hw sync d budget = budget - 1"
proof -
  have "find (sync_changed K hw sync d) [0..<budget - 1] = None"
    using assms by (simp add: find_None_iff)
  then show ?thesis by (simp add: sync_polls_def)
qed

text \<open>
  Claim C9. The poll loop of \<open>bcm2835_i2s_clear_fifos\<close>, started with its budget of 1000,
  is a total function of the machine and of what the hardware shows: it returns the
  machine it was given, moved on by the reads it made and by nothing else. It makes
  \<open>sync_polls \<dots> 1000\<close> reads: it stops right after the first read whose SYNC bit is not the
  recorded one, and after the last read its budget allows when no read shows a change;
  that is never more than 1000 rounds (the counter is decremented before it is tested, so
  the last round is the 999th).
\<close>

theorem clear_fifos_wait_bounded:
  "clear_fifos_wait K hw sync 1000 d
     = d\<lparr>io_clock := io_clock d + sync_polls K hw sync d 1000\<rparr>
   \<and> sync_polls K hw sync d 1000 \<le> 1000"
proof -
  have "unat (1000 :: u32) = Suc 999" by simp
  from clear_fifos_wait_polls [OF this, of K hw sync d]
  have "clear_fifos_wait K hw sync 1000 d
     = d\<lparr>io_clock := io_clock d + sync_polls K hw sync d 1000\<rparr>" by simp
  moreover have "sync_polls K hw sync d 1000 \<le> 1000"
    using sync_polls_le [of K hw sync d 1000] by simp
  ultimately show ?thesis by simp
qed

subsection \<open>The buffer index across bcm2835_i2s_dma_callback\<close>

lemma cv_gates_relay_idx: "buffer_idx (cv_gates_relay K kenv d) = buffer_idx d"
  by (simp add: cv_gates_relay_def Let_def)

lemma dma_callback_idx:
  "buffer_idx (bcm2835_i2s_dma_callback K kenv d) = NOT (buffer_idx d) AND 1"
  by (simp add: bcm2835_i2s_dma_callback_def dmaengine_tx_status_def Let_def cv_gates_relay_idx)

text \<open>
  Claim C10. After the DMA completion callback the buffer index is 0 or 1, whatever 32-bit
  value it had before; from 0 the callback takes it to 1 and from 1 to 0.
\<close>

theorem dma_callback_flips_buffer_idx:
  "(buffer_idx (bcm2835_i2s_dma_callback K kenv d) = 0
      \<or> buffer_idx (bcm2835_i2s_dma_callback K kenv d) = 1)
   \<and> buffer_idx (bcm2835_i2s_dma_callback K kenv (d\<lparr>buffer_idx := 0\<rparr>)) = 1
   \<and> buffer_idx (bcm2835_i2s_dma_callback K kenv (d\<lparr>buffer_idx := 1\<rparr>)) = 0"
  by (simp add: dma_callback_idx and_one_eq mod2_eq_if)


subsection \<open>Descriptor preparation\<close>

lemma prepare_cyclic_tx:
  "bcm2835_i2s_dma_prepare_cyclic kenv d DMA_MEM_TO_DEV =
     (let cfg = \<lparr>direction = DMA_MEM_TO_DEV, src_addr = 0, dst_addr = fifo_dma_addr d,
                  src_addr_width = 0, dst_addr_width = addr_width d, src_maxburst = 0,
                  dst_maxburst = dma_burst_size d\<rparr>
      in if slave_config_rc kenv Dma_tx \<noteq> 0
         then (None, d\<lparr>dma_log := dma_log d @ [Slave_config Dma_tx cfg],
                       klog := klog d @ [Printk ''DMA slave config failed'']\<rparr>)
         else ((if prep_cyclic_ok kenv Dma_tx
                then Some \<lparr>desc_chan = Dma_tx, desc_buf_addr = tx_phys_addr (buffer d),
                       desc_buf_len = buffer_len (buffer d),
                       desc_period_len = period_len (buffer d), desc_dir = DMA_MEM_TO_DEV,
                       desc_flags = [DMA_PREP_INTERRUPT, DMA_CTRL_ACK, DMA_OOB_INTERRUPT],
                       callback = None, callback_param = None\<rparr>
                else None),
               d\<lparr>dma_log := dma_log d @ [Slave_config Dma_tx cfg, Prep_dma_cyclic Dma_tx]\<rparr>))"
  by (simp add: bcm2835_i2s_dma_prepare_cyclic_def dmaengine_prep_dma_cyclic_def Let_def)

lemma prepare_cyclic_rx:
  "bcm2835_i2s_dma_prepare_cyclic kenv d DMA_DEV_TO_MEM =
     (let cfg = \<lparr>direction = DMA_DEV_TO_MEM, src_addr = fifo_dma_addr d, dst_addr = 0,
                  src_addr_width = addr_width d, dst_addr_width = 0,
                  src_maxburst = dma_burst_size d, dst_maxburst = 0\<rparr>
      in if slave_config_rc kenv Dma_rx \<noteq> 0
         then (None, d\<lparr>dma_log := dma_log d @ [Slave_config Dma_rx cfg],
                       klog := klog d @ [Printk ''DMA slave config failed'']\<rparr>)
         else ((if prep_cyclic_ok kenv Dma_rx
                then Some \<lparr>desc_chan = Dma_rx, desc_buf_addr = rx_phys_addr (buffer d),
                       desc_buf_len = buffer_len (buffer d),
                       desc_period_len = period_len (buffer d), desc_dir = DMA_DEV_TO_MEM,
                       desc_flags = [DMA_PREP_INTERRUPT, DMA_CTRL_ACK, DMA_OOB_INTERRUPT],
                       callback = None, callback_param = None\<rparr>
                else None),
               d\<lparr>dma_log := dma_log d @ [Slave_config Dma_rx cfg, Prep_dma_cyclic Dma_rx]\<rparr>))"
  by (simp add: bcm2835_i2s_dma_prepare_cyclic_def dmaengine_prep_dma_cyclic_def Let_def)

lemma dma_prepare_rx_fails:
  assumes "slave_config_rc kenv Dma_tx = 0" "prep_cyclic_ok kenv Dma_tx"
      and "slave_config_rc kenv Dma_rx \<noteq> 0 \<or> \<not> prep_cyclic_ok kenv Dma_rx"
  shows "fst (bcm2835_i2s_dma_prepare kenv d) = - EBUSY"
    and "tx_desc (snd (bcm2835_i2s_dma_prepare kenv d)) \<noteq> None"
    and "rx_desc (snd (bcm2835_i2s_dma_prepare kenv d)) = None"
    and "dma_trace d (snd (bcm2835_i2s_dma_prepare kenv d)) \<noteq> []"
    and "last (dma_trace d (snd (bcm2835_i2s_dma_prepare kenv d))) = Terminate_async Dma_tx"
  using assms
  by (auto simp: bcm2835_i2s_dma_prepare_def prepare_cyclic_tx prepare_cyclic_rx Let_def
        dmaengine_terminate_async_def dma_trace_def)

lemma dma_prepare_tx_fails:
  assumes "slave_config_rc kenv Dma_tx \<noteq> 0 \<or> \<not> prep_cyclic_ok kenv Dma_tx"
  shows "fst (bcm2835_i2s_dma_prepare kenv d) = - EBUSY"
    and "Dma_rx \<notin> call_chan ` set (dma_trace d (snd (bcm2835_i2s_dma_prepare kenv d)))"
    and "rx_desc (snd (bcm2835_i2s_dma_prepare kenv d)) = rx_desc d"
  using assms
  by (auto simp: bcm2835_i2s_dma_prepare_def prepare_cyclic_tx Let_def dma_trace_def)

lemma dma_prepare_ok:
  assumes "fst (bcm2835_i2s_dma_prepare kenv d) = 0"
  shows "\<exists>rxd txd. rx_desc (snd (bcm2835_i2s_dma_prepare kenv d)) = Some rxd
           \<and> tx_desc (snd (bcm2835_i2s_dma_prepare kenv d)) = Some txd
           \<and> desc_chan rxd = Dma_rx \<and> desc_chan txd = Dma_tx"
  using assms
  by (auto simp: bcm2835_i2s_dma_prepare_def prepare_cyclic_tx prepare_cyclic_rx Let_def
        dmaengine_terminate_async_def EBUSY_def split: if_splits option.splits)


lemma dma_prepare_tx_first:
  "dma_trace d (snd (bcm2835_i2s_dma_prepare kenv d)) \<noteq> []"
  "call_chan (hd (dma_trace d (snd (bcm2835_i2s_dma_prepare kenv d)))) = Dma_tx"
  "Dma_rx \<notin> call_chan ` set (takeWhile (\<lambda>c. c \<noteq> Prep_dma_cyclic Dma_tx)
                               (dma_trace d (snd (bcm2835_i2s_dma_prepare kenv d))))"
  by (auto simp: bcm2835_i2s_dma_prepare_def prepare_cyclic_tx prepare_cyclic_rx Let_def
        dmaengine_terminate_async_def dma_trace_def split: option.splits)

lemma dma_prepare_granted:
  assumes "slave_config_rc kenv Dma_tx = 0" "prep_cyclic_ok kenv Dma_tx"
      and "slave_config_rc kenv Dma_rx = 0" "prep_cyclic_ok kenv Dma_rx"
  shows "fst (bcm2835_i2s_dma_prepare kenv d) = 0"
    and "map call_chan (dma_trace d (snd (bcm2835_i2s_dma_prepare kenv d)))
           = [Dma_tx, Dma_tx, Dma_rx, Dma_rx]"
  using assms
  by (auto simp: bcm2835_i2s_dma_prepare_def prepare_cyclic_tx prepare_cyclic_rx Let_def
        dma_trace_def)

text \<open>
  Claim C3, as amended. In every run, \<open>bcm2835_i2s_dma_prepare\<close> requests the playback (TX)
  descriptor first: its first call into the DMA engine is about the TX channel, and it
  makes no call about the RX channel before it has asked for the TX descriptor. When the
  capture (RX) descriptor then fails (its slave configuration is rejected or no
  descriptor is granted), the function returns \<open>-EBUSY\<close> after terminating the TX channel,
  its last call into the DMA engine. When the TX descriptor itself fails, the function
  returns \<open>-EBUSY\<close> at once: it makes no call about the RX channel and leaves the RX
  descriptor of the device as it was. When both are granted it returns 0, after the two
  calls about TX and then the two about RX.
\<close>

theorem dma_prepare_unwinds_tx:
  "dma_trace d (snd (bcm2835_i2s_dma_prepare kenv d)) \<noteq> []
   \<and> call_chan (hd (dma_trace d (snd (bcm2835_i2s_dma_prepare kenv d)))) = Dma_tx
   \<and> Dma_rx \<notin> call_chan ` set (takeWhile (\<lambda>c. c \<noteq> Prep_dma_cyclic Dma_tx)
                                 (dma_trace d (snd (bcm2835_i2s_dma_prepare kenv d))))
   \<and> (slave_config_rc kenv Dma_tx = 0 \<and> prep_cyclic_ok kenv Dma_tx
      \<and> (slave_config_rc kenv Dma_rx \<noteq> 0 \<or> \<not> prep_cyclic_ok kenv Dma_rx)
    \<longrightarrow> fst (bcm2835_i2s_dma_prepare kenv d) = - EBUSY
        \<and> tx_desc (snd (bcm2835_i2s_dma_prepare kenv d)) \<noteq> None
        \<and> rx_desc (snd (bcm2835_i2s_dma_prepare kenv d)) = None
        \<and> last (dma_trace d (snd (bcm2835_i2s_dma_prepare kenv d))) = Terminate_async Dma_tx)
   \<and> (slave_config_rc kenv Dma_tx \<noteq> 0 \<or> \<not> prep_cyclic_ok kenv Dma_tx
    \<longrightarrow> fst (bcm2835_i2s_dma_prepare kenv d) = - EBUSY
        \<and> Dma_rx \<notin> call_chan ` set (dma_trace d (snd (bcm2835_i2s_dma_prepare kenv d)))
        \<and> rx_desc (snd (bcm2835_i2s_dma_prepare kenv d)) = rx_desc d)
   \<and> (slave_config_rc kenv Dma_tx = 0 \<and> prep_cyclic_ok kenv Dma_tx
      \<and> slave_config_rc kenv Dma_rx = 0 \<and> prep_cyclic_ok kenv Dma_rx
    \<longrightarrow> fst (bcm2835_i2s_dma_prepare kenv d) = 0
        \<and> map call_chan (dma_trace d (snd (bcm2835_i2s_dma_prepare kenv d)))
            = [Dma_tx, Dma_tx, Dma_rx, Dma_rx])"
proof (intro conjI impI)
  show "dma_trace d (snd (bcm2835_i2s_dma_prepare kenv d)) \<noteq> []"
    by (rule dma_prepare_tx_first)
  show "call_chan (hd (dma_trace d (snd (bcm2835_i2s_dma_prepare kenv d)))) = Dma_tx"
    by (rule dma_prepare_tx_first)
  show "Dma_rx \<notin> call_chan ` set (takeWhile (\<lambda>c. c \<noteq> Prep_dma_cyclic Dma_tx)
                                 (dma_trace d (snd (bcm2835_i2s_dma_prepare kenv d))))"
    by (rule dma_prepare_tx_first)
next
  assume "slave_config_rc kenv Dma_tx = 0 \<and> prep_cyclic_ok kenv Dma_tx
      \<and> (slave_config_rc kenv Dma_rx \<noteq> 0 \<or> \<not> prep_cyclic_ok kenv Dma_rx)"
  then have h: "slave_config_rc kenv Dma_tx = 0" "prep_cyclic_ok kenv Dma_tx"
    "slave_config_rc kenv Dma_rx \<noteq> 0 \<or> \<not> prep_cyclic_ok kenv Dma_rx"
    by simp_all
  show "fst (bcm2835_i2s_dma_prepare kenv d) = - EBUSY"
    by (rule dma_prepare_rx_fails [OF h])
  show "tx_desc (snd (bcm2835_i2s_dma_prepare kenv d)) \<noteq> None"
    by (rule dma_prepare_rx_fails [OF h])
  show "rx_desc (snd (bcm2835_i2s_dma_prepare kenv d)) = None"
    by (rule dma_prepare_rx_fails [OF h])
  show "last (dma_trace d (snd (bcm2835_i2s_dma_prepare kenv d))) = Terminate_async Dma_tx"
    by (rule dma_prepare_rx_fails [OF h])
next
  assume h: "slave_config_rc kenv Dma_tx \<noteq> 0 \<or> \<not> prep_cyclic_ok kenv Dma_tx"
  show "fst (bcm2835_i2s_dma_prepare kenv d) = - EBUSY"
    by (rule dma_prepare_tx_fails [OF h])
  show "Dma_rx \<notin> call_chan ` set (dma_trace d (snd (bcm2835_i2s_dma_prepare kenv d)))"
    by (rule dma_prepare_tx_fails [OF h])
  show "rx_desc (snd (bcm2835_i2s_dma_prepare kenv d)) = rx_desc d"
    by (rule dma_prepare_tx_fails [OF h])
next
  assume "slave_config_rc kenv Dma_tx = 0 \<and> prep_cyclic_ok kenv Dma_tx
      \<and> slave_config_rc kenv Dma_rx = 0 \<and> prep_cyclic_ok kenv Dma_rx"
  then have h: "slave_config_rc kenv Dma_tx = 0" "prep_cyclic_ok kenv Dma_tx"
    "slave_config_rc kenv Dma_rx = 0" "prep_cyclic_ok kenv Dma_rx"
    by simp_all
  show "fst (bcm2835_i2s_dma_prepare kenv d) = 0"
    by (rule dma_prepare_granted [OF h])
  show "map call_chan (dma_trace d (snd (bcm2835_i2s_dma_prepare kenv d)))
            = [Dma_tx, Dma_tx, Dma_rx, Dma_rx]"
    by (rule dma_prepare_granted [OF h])
qed

theorem dma_prepare_unwinds_tx_witness:
  "fst (bcm2835_i2s_dma_prepare rx_desc_refused idle_machine) = - EBUSY
   \<and> last (dma_trace idle_machine (snd (bcm2835_i2s_dma_prepare rx_desc_refused idle_machine)))
       = Terminate_async Dma_tx
   \<and> fst (bcm2835_i2s_dma_prepare tx_desc_refused idle_machine) = - EBUSY
   \<and> Dma_rx \<notin> call_chan `
        set (dma_trace idle_machine (snd (bcm2835_i2s_dma_prepare tx_desc_refused idle_machine)))
   \<and> fst (bcm2835_i2s_dma_prepare granting_kernel idle_machine) = 0
   \<and> map call_chan
        (dma_trace idle_machine (snd (bcm2835_i2s_dma_prepare granting_kernel idle_machine)))
       = [Dma_tx, Dma_tx, Dma_rx, Dma_rx]"
  using dma_prepare_unwinds_tx [of idle_machine rx_desc_refused]
    dma_prepare_unwinds_tx [of idle_machine tx_desc_refused]
    dma_prepare_unwinds_tx [of idle_machine granting_kernel]
  by (simp add: rx_desc_refused_def tx_desc_refused_def granting_kernel_def)

text \<open>
  Claim C3 as stated: the TX descriptor fails after the RX descriptor was successfully
  obtained, and RX is torn down before the error is returned. Within one run that order
  cannot arise, TX being requested first; it arises when an earlier run obtained the RX
  descriptor. On the machine that a fully granted run left (four calls, the RX
  descriptor stored in the device), a run whose TX descriptor is refused returns
  \<open>-EBUSY\<close> after two calls about TX: no termination of RX is requested and the RX
  descriptor is still the one obtained before.
\<close>

theorem dma_prepare_tx_failure_leaves_rx:
  "rx_desc prepared_machine \<noteq> None
   \<and> map call_chan (dma_log prepared_machine) = [Dma_tx, Dma_tx, Dma_rx, Dma_rx]
   \<and> fst (bcm2835_i2s_dma_prepare tx_desc_refused prepared_machine) = - EBUSY
   \<and> map call_chan (dma_log (snd (bcm2835_i2s_dma_prepare tx_desc_refused prepared_machine)))
       = [Dma_tx, Dma_tx, Dma_rx, Dma_rx, Dma_tx, Dma_tx]
   \<and> Terminate_async Dma_rx
        \<notin> set (dma_log (snd (bcm2835_i2s_dma_prepare tx_desc_refused prepared_machine)))
   \<and> rx_desc (snd (bcm2835_i2s_dma_prepare tx_desc_refused prepared_machine))
       = rx_desc prepared_machine"
proof -
  have granted: "slave_config_rc granting_kernel c = 0" "prep_cyclic_ok granting_kernel c" for c
    by (simp_all add: granting_kernel_def)
  have refused: "slave_config_rc tx_desc_refused Dma_tx = 0"
      "\<not> prep_cyclic_ok tx_desc_refused Dma_tx"
    by (simp_all add: tx_desc_refused_def granting_kernel_def)
  have log0: "dma_log idle_machine = []" by (simp add: idle_machine_def)
  have one: "rx_desc prepared_machine \<noteq> None"
    using dma_prepare_ok [OF dma_prepare_granted(1) [OF granted granted], of idle_machine]
    by (auto simp: prepared_machine_def)
  have two: "map call_chan (dma_log prepared_machine) = [Dma_tx, Dma_tx, Dma_rx, Dma_rx]"
    using dma_prepare_granted(2) [OF granted granted, of idle_machine]
    by (simp add: prepared_machine_def dma_trace_def log0)
  have three: "fst (bcm2835_i2s_dma_prepare tx_desc_refused prepared_machine) = - EBUSY"
    using refused by (intro dma_prepare_tx_fails(1)) simp
  have new: "dma_log (snd (bcm2835_i2s_dma_prepare tx_desc_refused prepared_machine))
      = dma_log prepared_machine
        @ [Slave_config Dma_tx
             \<lparr>direction = DMA_MEM_TO_DEV, src_addr = 0,
                dst_addr = fifo_dma_addr prepared_machine, src_addr_width = 0,
                dst_addr_width = addr_width prepared_machine, src_maxburst = 0,
                dst_maxburst = dma_burst_size prepared_machine\<rparr>,
           Prep_dma_cyclic Dma_tx]"
    using refused by (simp add: bcm2835_i2s_dma_prepare_def prepare_cyclic_tx Let_def)
  have four: "map call_chan (dma_log (snd (bcm2835_i2s_dma_prepare tx_desc_refused prepared_machine)))
       = [Dma_tx, Dma_tx, Dma_rx, Dma_rx, Dma_tx, Dma_tx]"
    by (simp add: new two)
  have "Terminate_async Dma_rx \<notin> set (dma_log prepared_machine)"
    by (simp add: prepared_machine_def bcm2835_i2s_dma_prepare_def prepare_cyclic_tx
          prepare_cyclic_rx Let_def granted log0)
  then have five: "Terminate_async Dma_rx
        \<notin> set (dma_log (snd (bcm2835_i2s_dma_prepare tx_desc_refused prepared_machine)))"
    by (simp add: new)
  have six: "rx_desc (snd (bcm2835_i2s_dma_prepare tx_desc_refused prepared_machine))
       = rx_desc prepared_machine"
    using refused by (intro dma_prepare_tx_fails(3)) simp
  from one two three four five six show ?thesis by blast
qed

subsection \<open>Submission\<close>

lemma submit_dma_cases:
  assumes "rx_desc d = Some rxd" "desc_chan rxd = Dma_rx"
      and "tx_desc d = Some txd" "desc_chan txd = Dma_tx"
  shows "bcm2835_i2s_submit_dma kenv d =
     (if submit_cookie kenv Dma_rx < 0
      then Inr (- EIO, d\<lparr>dma_rx_cookie := submit_cookie kenv Dma_rx,
                          dma_log := dma_log d @ [Submit Dma_rx],
                          klog := klog d @ [Printk ''rx dmaengine_submit failed'']\<rparr>)
      else if submit_cookie kenv Dma_tx < 0
      then Inr (- EIO, d\<lparr>dma_tx_cookie := submit_cookie kenv Dma_tx,
                          dma_rx_cookie := submit_cookie kenv Dma_rx,
                          dma_log := dma_log d @ [Submit Dma_rx, Submit Dma_tx],
                          klog := klog d @ [Printk ''tx dmaengine_submit failed'']\<rparr>)
      else Inr (0, d\<lparr>dma_tx_cookie := submit_cookie kenv Dma_tx,
                      dma_rx_cookie := submit_cookie kenv Dma_rx,
                      dma_log := dma_log d @ [Submit Dma_rx, Submit Dma_tx,
                                              Issue_pending Dma_rx, Issue_pending Dma_tx]\<rparr>))"
  using assms
  by (simp add: bcm2835_i2s_submit_dma_def dmaengine_submit_def dma_submit_error_def
        dma_async_issue_pending_def Let_def)

text \<open>
  Claim C1. With the descriptors that \<open>bcm2835_i2s_dma_prepare\<close> leaves (the RX descriptor
  on the RX channel, the TX descriptor on the TX channel), every run of
  \<open>bcm2835_i2s_submit_dma\<close> returns, and among the calls it makes into the DMA engine no
  TX submission comes before the RX submission and no TX \<open>issue_pending\<close> before the RX
  \<open>issue_pending\<close>. A run that returns 0 makes exactly four calls: submit RX, submit TX,
  issue RX, issue TX.
\<close>

theorem submit_dma_rx_first:
  assumes "rx_desc d = Some rxd" "desc_chan rxd = Dma_rx"
      and "tx_desc d = Some txd" "desc_chan txd = Dma_tx"
  shows "\<exists>ret d'. bcm2835_i2s_submit_dma kenv d = Inr (ret, d')
           \<and> happens_before (Submit Dma_rx) (Submit Dma_tx) (dma_trace d d')
           \<and> happens_before (Issue_pending Dma_rx) (Issue_pending Dma_tx) (dma_trace d d')
           \<and> (ret = 0 \<longrightarrow> dma_trace d d' = [Submit Dma_rx, Submit Dma_tx,
                                              Issue_pending Dma_rx, Issue_pending Dma_tx])"
  by (simp add: submit_dma_cases [OF assms] dma_trace_def happens_before_def EIO_def)

theorem submit_dma_rx_first_witness:
  "\<exists>d'. bcm2835_i2s_submit_dma granting_kernel
           (snd (bcm2835_i2s_dma_prepare granting_kernel idle_machine)) = Inr (0, d')
         \<and> dma_trace (snd (bcm2835_i2s_dma_prepare granting_kernel idle_machine)) d'
             = [Submit Dma_rx, Submit Dma_tx, Issue_pending Dma_rx, Issue_pending Dma_tx]"
proof -
  let ?d = "snd (bcm2835_i2s_dma_prepare granting_kernel idle_machine)"
  have ok: "fst (bcm2835_i2s_dma_prepare granting_kernel idle_machine) = 0"
    by (simp add: bcm2835_i2s_dma_prepare_def prepare_cyclic_tx prepare_cyclic_rx Let_def
          granting_kernel_def)
  from dma_prepare_ok [OF ok] obtain rxd txd where
    descs: "rx_desc ?d = Some rxd" "desc_chan rxd = Dma_rx"
           "tx_desc ?d = Some txd" "desc_chan txd = Dma_tx"
    by blast
  from submit_dma_rx_first [OF descs, of granting_kernel] obtain ret d' where
    run: "bcm2835_i2s_submit_dma granting_kernel ?d = Inr (ret, d')"
    and tr: "ret = 0 \<longrightarrow> dma_trace ?d d' = [Submit Dma_rx, Submit Dma_tx,
                                              Issue_pending Dma_rx, Issue_pending Dma_tx]"
    by blast
  have "submit_cookie granting_kernel c = 1" for c
    by (simp add: granting_kernel_def)
  then have "ret = 0"
    using run by (simp add: submit_dma_cases [OF descs])
  with run tr show ?thesis by blast
qed

subsection \<open>Teardown\<close>

text \<open>
  Claim C2. The claim asks that RX termination be attempted even when the TX termination
  request failed. \<open>bcm2835_i2s_exit\<close> returns as soon as the TX request fails: with a
  kernel whose \<open>dmaengine_terminate_async\<close> answers \<open>-EINVAL\<close> on the TX channel, the only
  call made is the TX request, the return value is that error, and no termination of RX
  is requested.
\<close>

theorem exit_returns_at_tx_failure:
  "fst (bcm2835_i2s_exit tx_terminate_fails idle_machine) = - EINVAL
   \<and> dma_log (snd (bcm2835_i2s_exit tx_terminate_fails idle_machine)) = [Terminate_async Dma_tx]
   \<and> Terminate_async Dma_rx \<notin> set (dma_log (snd (bcm2835_i2s_exit tx_terminate_fails idle_machine)))"
  by (simp add: bcm2835_i2s_exit_def dmaengine_terminate_async_def Let_def
        tx_terminate_fails_def granting_kernel_def idle_machine_def EINVAL_def)

subsection \<open>The buffer geometry\<close>

lemma reg_write_view [simp]: "dma_view (rpi_reg_write r v d) = dma_view d"
  by (simp add: dma_view_def rpi_reg_write_def)

lemma reg_read_view [simp]: "dma_view (snd (rpi_reg_read hw r d)) = dma_view d"
  by (simp add: dma_view_def rpi_reg_read_def)

lemma update_bits_view [simp]: "dma_view (rpi_reg_update_bits hw r m v d) = dma_view d"
  by (simp add: rpi_reg_update_bits_def Let_def)

lemma clear_regs_view [simp]: "dma_view (bcm2835_i2s_clear_regs d) = dma_view d"
  by (simp add: bcm2835_i2s_clear_regs_def)

lemma configure_hat_view [simp]: "dma_view (snd (configure_hat K kenv fl d)) = dma_view d"
  by (simp add: configure_hat_def dma_view_def Let_def)

lemma configure_view [simp]: "dma_view (bcm2835_i2s_configure K hw kenv d) = dma_view d"
  unfolding bcm2835_i2s_configure_def Let_def
  by (simp only: update_bits_view reg_write_view configure_hat_view)

lemma enable_view [simp]: "dma_view (bcm2835_i2s_enable K hw d) = dma_view d"
  unfolding bcm2835_i2s_enable_def Let_def
  by (simp only: update_bits_view)

lemma clear_fifos_wait_view [simp]:
  "dma_view (clear_fifos_wait K hw sync 1000 d) = dma_view d"
proof -
  have "unat (1000 :: u32) = Suc 999" by simp
  from clear_fifos_wait_polls [OF this, of K hw sync d] show ?thesis
    by (simp add: dma_view_def)
qed

lemma clear_fifos_view [simp]: "dma_view (bcm2835_i2s_clear_fifos K hw tx rx d) = dma_view d"
  unfolding bcm2835_i2s_clear_fifos_def Let_def
  by (simp only: update_bits_view reg_read_view clear_fifos_wait_view)

lemma fifo_prime_view [simp]: "dma_view (fifo_prime n d) = dma_view d"
  by (induction n arbitrary: d) simp_all

lemma dma_prepare_buffer: "buffer (snd (bcm2835_i2s_dma_prepare kenv d)) = buffer d"
  by (simp add: bcm2835_i2s_dma_prepare_def prepare_cyclic_tx prepare_cyclic_rx Let_def
        dmaengine_terminate_async_def split: option.splits)

lemma buffers_setup_outside:
  assumes "\<not> store_in_buffer K (buffers_geometry bs ch (buffer d))
               (cv_gate_out (buffers_geometry bs ch (buffer d)))"
  shows "bcm2835_i2s_buffers_setup K hw kenv bs ch d
           = Inl (Store_outside_buffer (cv_gate_out (buffers_geometry bs ch (buffer d))))"
  using assms by (simp add: bcm2835_i2s_buffers_setup_def)

lemma buffers_setup_buffer:
  assumes inside: "store_in_buffer K (buffers_geometry bs ch (buffer d))
                     (cv_gate_out (buffers_geometry bs ch (buffer d)))"
  shows "\<exists>ret d'. bcm2835_i2s_buffers_setup K hw kenv bs ch d = Inr (ret, d')
      \<and> buffer d' = buffers_geometry bs ch (buffer d)"
proof -
  define d1 where "d1 = d\<lparr>buffer := buffers_geometry bs ch (buffer d),
    ram := (ram d)(cv_gate_out (buffers_geometry bs ch (buffer d)) := 0x0f)\<rparr>"
  define d2 where "d2 = snd (bcm2835_i2s_dma_prepare kenv d1)"
  define d7 where "d7 = fifo_prime (nat (sint (DMA_THR_TX K + ch)))
     (bcm2835_i2s_clear_fifos K hw True True
       (bcm2835_i2s_enable K hw (bcm2835_i2s_configure K hw kenv (bcm2835_i2s_clear_regs d2))))"
  have b2: "buffer d2 = buffers_geometry bs ch (buffer d)"
    by (simp add: d2_def dma_prepare_buffer d1_def)
  have "bcm2835_i2s_buffers_setup K hw kenv bs ch d =
    (if \<not> store_in_buffer K (buffers_geometry bs ch (buffer d))
             (cv_gate_out (buffers_geometry bs ch (buffer d)))
     then Inl (Store_outside_buffer (cv_gate_out (buffers_geometry bs ch (buffer d))))
     else if fst (bcm2835_i2s_dma_prepare kenv d1) \<noteq> 0
     then Inr (- EINVAL, d2\<lparr>klog := klog d2 @ [Printk ''dma_prepare failed'']\<rparr>)
     else (case bcm2835_i2s_submit_dma kenv d7 of
             Inl f \<Rightarrow> Inl f
           | Inr (ret, d8) \<Rightarrow>
               if ret \<noteq> 0
               then Inr (ret, d8\<lparr>klog := klog d8 @ [Printk ''submit_dma failed'']\<rparr>)
               else Inr (0, d8)))"
    unfolding bcm2835_i2s_buffers_setup_def Let_def d1_def d2_def d7_def ..
  with inside have unfold: "bcm2835_i2s_buffers_setup K hw kenv bs ch d =
    (if fst (bcm2835_i2s_dma_prepare kenv d1) \<noteq> 0
     then Inr (- EINVAL, d2\<lparr>klog := klog d2 @ [Printk ''dma_prepare failed'']\<rparr>)
     else (case bcm2835_i2s_submit_dma kenv d7 of
             Inl f \<Rightarrow> Inl f
           | Inr (ret, d8) \<Rightarrow>
               if ret \<noteq> 0
               then Inr (ret, d8\<lparr>klog := klog d8 @ [Printk ''submit_dma failed'']\<rparr>)
               else Inr (0, d8)))"
    by simp
  show ?thesis
  proof (cases "fst (bcm2835_i2s_dma_prepare kenv d1) = 0")
    case False
    then show ?thesis by (simp add: unfold b2)
  next
    case True
    from dma_prepare_ok [OF True] obtain rxd txd where
      "rx_desc d2 = Some rxd" "tx_desc d2 = Some txd" "desc_chan rxd = Dma_rx"
      "desc_chan txd = Dma_tx"
      unfolding d2_def by blast
    moreover have v: "dma_view d7 = dma_view d2" by (simp add: d7_def)
    ultimately have descs: "rx_desc d7 = Some rxd" "desc_chan rxd = Dma_rx"
      "tx_desc d7 = Some txd" "desc_chan txd = Dma_tx"
      by (simp_all add: dma_view_def)
    from v b2 have b7: "buffer d7 = buffers_geometry bs ch (buffer d)"
      by (simp add: dma_view_def)
    show ?thesis
      using True b7 by (simp add: unfold submit_dma_cases [OF descs])
  qed
qed

lemma uint_u64_of_int: "0 \<le> k \<Longrightarrow> k < 2 ^ 64 \<Longrightarrow> uint (word_of_int k :: u64) = k"
proof -
  assume k: "0 \<le> k" "k < 2 ^ 64"
  have "uint (word_of_int k :: u64) = k mod 2 ^ 64"
    by (simp add: uint_word_of_int)
  also have "\<dots> = k"
    using k by (intro mod_pos_pos_trivial) auto
  finally show ?thesis .
qed

lemma geometry_period:
  "period_len (buffers_geometry frames chans b) = word_of_int (sint (frames * chans) * 4)"
proof -
  have "period_len (buffers_geometry frames chans b) = scast (frames * chans) * 4"
    by (simp add: buffers_geometry_def Let_def)
  also have "(scast (frames * chans) :: u64) = word_of_int (sint (frames * chans))"
    by (rule scast_eq)
  finally show ?thesis by (simp del: of_int_sint)
qed

lemma geometry_buffer_len:
  "buffer_len (buffers_geometry frames chans b)
     = 2 * period_len (buffers_geometry frames chans b)"
  by (simp add: buffers_geometry_def Let_def)

lemma geometry_cv_gate_out:
  "cv_gate_out (buffers_geometry frames chans b) - rx_buf (buffers_geometry frames chans b)
     = buffer_len (buffers_geometry frames chans b) * 2"
  by (simp add: buffers_geometry_def Let_def)

text \<open>The lengths, when the products do not wrap around.\<close>

lemma geometry_lengths:
  assumes "0 < sint frames" "0 < sint chans" "2 * (sint frames * sint chans * 4) < 2 ^ 31"
  shows "uint (period_len (buffers_geometry frames chans b)) = sint frames * sint chans * 4"
    and "uint (buffer_len (buffers_geometry frames chans b))
           = 2 * uint (period_len (buffers_geometry frames chans b))"
    and "uint (buffer_len (buffers_geometry frames chans b) * 2)
           = 2 * (2 * (sint frames * sint chans * 4))"
proof -
  define p where "p = sint frames * sint chans"
  from assms have pos: "0 < sint frames" "0 < sint chans" and small: "2 * (p * 4) < 2 ^ 31"
    by (simp_all add: p_def)
  have p0: "0 < p" using pos by (simp add: p_def)
  have bounds: "- (2 ^ 31) \<le> p" "p < 2 ^ 31" "0 \<le> p * 4" "p * 4 < 2 ^ 64"
    "0 \<le> 2 * (p * 4)" "2 * (p * 4) < 2 ^ 64" "0 \<le> 2 * (2 * (p * 4))"
    "2 * (2 * (p * 4)) < 2 ^ 64"
    using p0 small by simp_all
  have "sint (frames * chans) = signed_take_bit 31 p"
    by (simp add: sint_word_ariths p_def)
  also have "\<dots> = p"
    using bounds by (intro signed_take_bit_int_eq_self)
  finally have prod: "sint (frames * chans) = p" .
  have per: "period_len (buffers_geometry frames chans b) = word_of_int (p * 4)"
    by (simp only: geometry_period prod)
  have one: "uint (period_len (buffers_geometry frames chans b)) = p * 4"
    unfolding per using bounds by (intro uint_u64_of_int)
  then show "uint (period_len (buffers_geometry frames chans b)) = sint frames * sint chans * 4"
    by (simp only: p_def)
  have "buffer_len (buffers_geometry frames chans b) = 2 * word_of_int (p * 4)"
    by (simp only: geometry_buffer_len per)
  also have "\<dots> = word_of_int (2 * (p * 4))"
    by simp
  finally have len: "buffer_len (buffers_geometry frames chans b) = word_of_int (2 * (p * 4))" .
  have "uint (buffer_len (buffers_geometry frames chans b)) = 2 * (p * 4)"
    unfolding len using bounds by (intro uint_u64_of_int)
  with one show "uint (buffer_len (buffers_geometry frames chans b))
           = 2 * uint (period_len (buffers_geometry frames chans b))"
    by simp
  have "buffer_len (buffers_geometry frames chans b) * 2 = word_of_int (2 * (p * 4)) * 2"
    by (simp only: len)
  also have "\<dots> = word_of_int (2 * (2 * (p * 4)))"
    by simp
  finally have twice:
    "buffer_len (buffers_geometry frames chans b) * 2 = word_of_int (2 * (2 * (p * 4)))" .
  have "uint (buffer_len (buffers_geometry frames chans b) * 2) = 2 * (2 * (p * 4))"
    unfolding twice using bounds by (intro uint_u64_of_int)
  then show "uint (buffer_len (buffers_geometry frames chans b) * 2)
           = 2 * (2 * (sint frames * sint chans * 4))"
    by (simp only: p_def)
qed

lemma geometry_bases:
  "tx_buf (buffers_geometry frames chans b)
     = rx_buf (buffers_geometry frames chans b) + buffer_len (buffers_geometry frames chans b)"
  "tx_phys_addr (buffers_geometry frames chans b)
     = rx_phys_addr (buffers_geometry frames chans b) + buffer_len (buffers_geometry frames chans b)"
  "rx_buf (buffers_geometry frames chans b) = rx_buf b"
  "rx_phys_addr (buffers_geometry frames chans b) = rx_phys_addr b"
  by (simp_all add: buffers_geometry_def Let_def)

text \<open>For a valid pair the store to the first side-channel word is inside the region.\<close>

lemma valid_geometry_store:
  assumes "valid_geometry K frames chans"
  shows "store_in_buffer K (buffers_geometry frames chans b)
           (cv_gate_out (buffers_geometry frames chans b))"
proof -
  from assms have arith: "0 < sint frames" "0 < sint chans"
      "2 * (sint frames * sint chans * 4) < 2 ^ 31"
    and fits: "2 * (2 * (sint frames * sint chans * 4)) + 8
                 \<le> uint (RESERVED_BUFFER_SIZE_IN_PAGES K * PAGE_SIZE K)"
    by (simp_all add: valid_geometry_def)
  have "uint (buffer_len (buffers_geometry frames chans b) * 2) + 4
          \<le> uint (RESERVED_BUFFER_SIZE_IN_PAGES K * PAGE_SIZE K)"
    using geometry_lengths(3) [OF arith, of b] fits by simp
  then have "int (unat (buffer_len (buffers_geometry frames chans b) * 2) + 4)
          \<le> int (unat (RESERVED_BUFFER_SIZE_IN_PAGES K * PAGE_SIZE K))"
    by simp
  then have "unat (buffer_len (buffers_geometry frames chans b) * 2) + 4
          \<le> unat (RESERVED_BUFFER_SIZE_IN_PAGES K * PAGE_SIZE K)"
    by (simp only: of_nat_le_iff)
  then show ?thesis
    by (simp only: store_in_buffer_def geometry_cv_gate_out)
qed

text \<open>A pair whose layout does not fit the region: with \<open>0x400000\<close> frames of 8 channels the
  buffer length is \<open>2 ^ 28\<close> bytes, the first side-channel word lies \<open>2 ^ 29\<close> bytes after
  \<open>rx_buf\<close>, and the store to it is outside the ten pages reserved.\<close>

lemma buffers_setup_outside_reserved_region:
  "bcm2835_i2s_buffers_setup bcm2835_consts hw kenv 0x400000 8 idle_machine
     = Inl (Store_outside_buffer 0x20001000)"
proof -
  let ?g = "buffers_geometry 0x400000 8 (buffer idle_machine)"
  have "uint (buffer_len ?g * 2) = 2 * (2 * (sint (0x400000 :: u32) * sint (8 :: u32) * 4))"
    by (rule geometry_lengths(3)) simp_all
  then have "uint (buffer_len ?g * 2) = 0x20000000" by simp
  then have off: "buffer_len ?g * 2 = 0x20000000" by (simp add: word_uint_eq_iff)
  have base: "rx_buf ?g = 0x1000"
    by (simp add: geometry_bases idle_machine_def)
  have "cv_gate_out ?g = rx_buf ?g + buffer_len ?g * 2"
    by (simp add: buffers_geometry_def Let_def)
  then have cv: "cv_gate_out ?g = 0x20001000"
    by (simp only: off base) simp
  have region: "unat (RESERVED_BUFFER_SIZE_IN_PAGES bcm2835_consts * PAGE_SIZE bcm2835_consts)
                  = 40960"
    by (simp add: bcm2835_consts_def)
  have "\<not> store_in_buffer bcm2835_consts ?g (cv_gate_out ?g)"
    by (simp only: store_in_buffer_def geometry_cv_gate_out off region) simp
  from buffers_setup_outside [OF this] cv show ?thesis by simp
qed

text \<open>
  Claim C6. For every valid pair of period frames and channel count (both positive, no
  product wrapping around, the layout inside the reserved region),
  \<open>bcm2835_i2s_buffers_setup\<close> returns, with success or with an error code, and the
  buffer set it leaves has: a period length of \<open>frames * channels * 4\<close> bytes, a buffer
  length of twice the period length, and the playback base, virtual and physical, at the
  capture base plus the buffer length; the capture bases are the ones it found.
\<close>

theorem buffers_setup_geometry:
  assumes "valid_geometry K frames chans"
  shows "\<exists>ret d'. bcm2835_i2s_buffers_setup K hw kenv frames chans d = Inr (ret, d')
           \<and> uint (period_len (buffer d')) = sint frames * sint chans * 4
           \<and> uint (buffer_len (buffer d')) = 2 * uint (period_len (buffer d'))
           \<and> tx_buf (buffer d') = rx_buf (buffer d') + buffer_len (buffer d')
           \<and> tx_phys_addr (buffer d') = rx_phys_addr (buffer d') + buffer_len (buffer d')
           \<and> rx_buf (buffer d') = rx_buf (buffer d)
           \<and> rx_phys_addr (buffer d') = rx_phys_addr (buffer d)"
proof -
  from assms have arith: "0 < sint frames" "0 < sint chans"
      "2 * (sint frames * sint chans * 4) < 2 ^ 31"
    by (simp_all add: valid_geometry_def)
  from buffers_setup_buffer [OF valid_geometry_store [OF assms], of hw kenv d] obtain ret d' where
    run: "bcm2835_i2s_buffers_setup K hw kenv frames chans d = Inr (ret, d')"
    and b: "buffer d' = buffers_geometry frames chans (buffer d)"
    by blast
  show ?thesis
    using run geometry_lengths(1,2) [OF arith, of "buffer d"]
      geometry_bases [of frames chans "buffer d"]
    by (simp add: b)
qed

theorem buffers_setup_geometry_witness:
  "\<exists>ret d'. bcm2835_i2s_buffers_setup bcm2835_consts (ready_hw (\<lambda>i. 0)) granting_kernel 64 2
               idle_machine = Inr (ret, d')
           \<and> uint (period_len (buffer d')) = 512
           \<and> uint (buffer_len (buffer d')) = 1024
           \<and> tx_buf (buffer d') = 0x1400
           \<and> tx_phys_addr (buffer d') = 0x80000400"
proof -
  have v: "valid_geometry bcm2835_consts 64 2"
    by (simp add: valid_geometry_def bcm2835_consts_def)
  from buffers_setup_geometry [OF v, of "ready_hw (\<lambda>i. 0)" granting_kernel idle_machine]
  obtain ret d' where
    run: "bcm2835_i2s_buffers_setup bcm2835_consts (ready_hw (\<lambda>i. 0)) granting_kernel 64 2
               idle_machine = Inr (ret, d')"
    and per: "uint (period_len (buffer d')) = sint (64 :: u32) * sint (2 :: u32) * 4"
    and len: "uint (buffer_len (buffer d')) = 2 * uint (period_len (buffer d'))"
    and tx: "tx_buf (buffer d') = rx_buf (buffer d') + buffer_len (buffer d')"
    and txp: "tx_phys_addr (buffer d') = rx_phys_addr (buffer d') + buffer_len (buffer d')"
    and rx: "rx_buf (buffer d') = rx_buf (buffer idle_machine)"
    and rxp: "rx_phys_addr (buffer d') = rx_phys_addr (buffer idle_machine)"
    by blast
  from per have per': "uint (period_len (buffer d')) = 512" by simp
  with len have len': "uint (buffer_len (buffer d')) = 1024" by simp
  then have bl: "buffer_len (buffer d') = 1024"
    by (simp add: word_uint_eq_iff)
  have "tx_buf (buffer d') = 0x1400" using tx rx bl by (simp add: idle_machine_def)
  moreover have "tx_phys_addr (buffer d') = 0x80000400"
    using txp rxp bl by (simp add: idle_machine_def)
  ultimately show ?thesis using run per' len' by blast
qed

subsection \<open>The discard loop\<close>

lemma read_fifo:
  "rpi_reg_read hw FIFO_A_REG d
     = (rx_samples hw (rx_popped d),
        d\<lparr>io_clock := Suc (io_clock d), rx_popped := Suc (rx_popped d)\<rparr>)"
  by (simp add: rpi_reg_read_def)

lemma rx_ready_clock [simp]: "rx_ready K hw (d\<lparr>io_clock := c\<rparr>) = rx_ready K hw d"
  by (rule ext) (simp add: rx_ready_def)

lemma rx_ready_after_pop [simp]: "rx_ready K hw (after_pop d t) = rx_ready K hw d"
  by (rule ext) (simp add: rx_ready_def after_pop_def)

lemma after_pop_fields [simp]:
  "rx_popped (after_pop d t) = Suc (rx_popped d)"
  "klog (after_pop d t) = klog d"
  "after_pop (d\<lparr>io_clock := c\<rparr>) t = after_pop d t"
  by (simp_all add: after_pop_def)

lemma loop_done:
  "s0 = 0 \<Longrightarrow> s1 = 0 \<Longrightarrow> synch_frame_loop K hw s0 s1 tmp n d = Some (Inr (n, tmp, d))"
  by (subst synch_frame_loop.simps) simp

lemma loop_wait:
  assumes "s0 \<noteq> 0 \<or> s1 \<noteq> 0" and "\<forall>j<k. \<not> rx_ready K hw d (io_clock d + j)"
  shows "synch_frame_loop K hw s0 s1 tmp n d
           = synch_frame_loop K hw s0 s1 tmp n (d\<lparr>io_clock := io_clock d + k\<rparr>)"
  using assms(2)
proof (induction k arbitrary: d)
  case 0
  show ?case by simp
next
  case (Suc k)
  let ?d1 = "d\<lparr>io_clock := Suc (io_clock d)\<rparr>"
  from Suc.prems have "\<not> rx_ready K hw d (io_clock d + 0)" by blast
  then have nr: "\<not> rx_ready K hw d (io_clock d)" by simp
  have "synch_frame_loop K hw s0 s1 tmp n d = synch_frame_loop K hw s0 s1 tmp n ?d1"
    using assms(1) nr by (subst synch_frame_loop.simps) (simp add: read_cs rx_ready_def)
  also have "\<dots> = synch_frame_loop K hw s0 s1 tmp n (?d1\<lparr>io_clock := io_clock ?d1 + k\<rparr>)"
  proof (rule Suc.IH, intro allI impI)
    fix j assume "j < k"
    then have "Suc j < Suc k" by simp
    with Suc.prems have "\<not> rx_ready K hw d (io_clock d + Suc j)" by blast
    then show "\<not> rx_ready K hw ?d1 (io_clock ?d1 + j)" by simp
  qed
  also have "?d1\<lparr>io_clock := io_clock ?d1 + k\<rparr> = d\<lparr>io_clock := io_clock d + Suc k\<rparr>"
    by simp
  finally show ?case .
qed

lemma loop_pop:
  assumes "s0 \<noteq> 0 \<or> s1 \<noteq> 0" "rx_ready K hw d (io_clock d)" "unat n < length tmp"
  shows "synch_frame_loop K hw s0 s1 tmp n d
           = synch_frame_loop K hw (rx_samples hw (rx_popped d)) s0
               (tmp[unat n := rx_samples hw (rx_popped d)]) (n + 1) (after_pop d (io_clock d))"
  using assms
  by (subst synch_frame_loop.simps)
     (simp add: read_cs read_fifo rpi_reg_write_def rx_ready_def after_pop_def)

lemma loop_overflow:
  assumes "s0 \<noteq> 0 \<or> s1 \<noteq> 0" "rx_ready K hw d (io_clock d)" "\<not> unat n < length tmp"
  shows "synch_frame_loop K hw s0 s1 tmp n d = Some (Inl (Tmp_out_of_bounds (unat n)))"
  using assms
  by (subst synch_frame_loop.simps) (simp add: read_cs rx_ready_def)

lemma first_ready:
  assumes "\<forall>t. \<exists>t'\<ge>t. rx_ready K hw d t'"
  obtains k where "rx_ready K hw d (io_clock d + k)"
    and "\<forall>j<k. \<not> rx_ready K hw d (io_clock d + j)"
proof -
  from assms obtain t' where "io_clock d \<le> t'" "rx_ready K hw d t'" by blast
  then have ex: "\<exists>k. rx_ready K hw d (io_clock d + k)"
    by (metis le_add_diff_inverse)
  define k where "k = (LEAST k. rx_ready K hw d (io_clock d + k))"
  have "rx_ready K hw d (io_clock d + k)"
    unfolding k_def using ex by (rule LeastI_ex)
  moreover have "\<forall>j<k. \<not> rx_ready K hw d (io_clock d + j)"
    unfolding k_def using not_less_Least by blast
  ultimately show ?thesis using that by blast
qed

lemma loop_next:
  assumes "s0 \<noteq> 0 \<or> s1 \<noteq> 0" "\<forall>t. \<exists>t'\<ge>t. rx_ready K hw d t'" "unat n < length tmp"
  shows "\<exists>t. synch_frame_loop K hw s0 s1 tmp n d
           = synch_frame_loop K hw (rx_samples hw (rx_popped d)) s0
               (tmp[unat n := rx_samples hw (rx_popped d)]) (n + 1) (after_pop d t)"
proof -
  from first_ready [OF assms(2)] obtain k where
    k: "rx_ready K hw d (io_clock d + k)" "\<forall>j<k. \<not> rx_ready K hw d (io_clock d + j)"
    by blast
  let ?dk = "d\<lparr>io_clock := io_clock d + k\<rparr>"
  have "synch_frame_loop K hw s0 s1 tmp n d = synch_frame_loop K hw s0 s1 tmp n ?dk"
    by (rule loop_wait [OF assms(1) k(2)])
  also have "\<dots> = synch_frame_loop K hw (rx_samples hw (rx_popped ?dk)) s0
               (tmp[unat n := rx_samples hw (rx_popped ?dk)]) (n + 1)
               (after_pop ?dk (io_clock ?dk))"
    using k(1) assms(1,3) by (intro loop_pop) simp_all
  finally show ?thesis by (auto simp: after_pop_fields)
qed

lemma loop_next_overflow:
  assumes "s0 \<noteq> 0 \<or> s1 \<noteq> 0" "\<forall>t. \<exists>t'\<ge>t. rx_ready K hw d t'" "\<not> unat n < length tmp"
  shows "synch_frame_loop K hw s0 s1 tmp n d = Some (Inl (Tmp_out_of_bounds (unat n)))"
proof -
  from first_ready [OF assms(2)] obtain k where
    k: "rx_ready K hw d (io_clock d + k)" "\<forall>j<k. \<not> rx_ready K hw d (io_clock d + j)"
    by blast
  let ?dk = "d\<lparr>io_clock := io_clock d + k\<rparr>"
  have "synch_frame_loop K hw s0 s1 tmp n d = synch_frame_loop K hw s0 s1 tmp n ?dk"
    by (rule loop_wait [OF assms(1) k(2)])
  also have "\<dots> = Some (Inl (Tmp_out_of_bounds (unat n)))"
    using k(1) assms(1,3) by (intro loop_overflow) simp_all
  finally show ?thesis .
qed

lemma unat_succ_small: "unat n < 9 \<Longrightarrow> unat (n + 1) = Suc (unat n)" for n :: u32
proof -
  assume "unat n < 9"
  then have "unat n + unat (1 :: u32) < 2 ^ LENGTH(32)" by simp
  then have "unat (n + 1) = unat n + unat (1 :: u32)"
    by (simp only: unat_add_lem [THEN iffD1])
  then show ?thesis by simp
qed

lemma loop_run:
  assumes "\<forall>t. \<exists>t'\<ge>t. rx_ready K hw d t'"
      and "e 0 = s1" and "e 1 = s0" and "\<forall>i. e (i + 2) = rx_samples hw (rx_popped d + i)"
      and "zero_pair_at e m" and "\<forall>i<m. \<not> zero_pair_at e i"
      and "unat n + m \<le> length tmp" and "length tmp = 9"
  shows "\<exists>tmp' d'. synch_frame_loop K hw s0 s1 tmp n d = Some (Inr (n + of_nat m, tmp', d'))
           \<and> rx_popped d' = rx_popped d + m \<and> klog d' = klog d"
  using assms
proof (induction m arbitrary: e s0 s1 tmp n d)
  case 0
  then have "s0 = 0" "s1 = 0" by (simp_all add: zero_pair_at_def)
  then show ?case by (simp add: loop_done)
next
  case (Suc m)
  from Suc.prems(6) have "\<not> zero_pair_at e 0" by blast
  with Suc.prems(2,3) have cont: "s0 \<noteq> 0 \<or> s1 \<noteq> 0"
    by (auto simp: zero_pair_at_def)
  from Suc.prems(7,8) have room: "unat n < length tmp" and n9: "unat n < 9" by simp_all
  let ?x = "rx_samples hw (rx_popped d)"
  from loop_next [OF cont Suc.prems(1) room] obtain t where
    step: "synch_frame_loop K hw s0 s1 tmp n d
             = synch_frame_loop K hw ?x s0 (tmp[unat n := ?x]) (n + 1) (after_pop d t)"
    by blast
  let ?e = "\<lambda>i. e (Suc i)"
  have "\<exists>tmp' d'. synch_frame_loop K hw ?x s0 (tmp[unat n := ?x]) (n + 1) (after_pop d t)
            = Some (Inr (n + 1 + of_nat m, tmp', d'))
          \<and> rx_popped d' = rx_popped (after_pop d t) + m \<and> klog d' = klog (after_pop d t)"
  proof (rule Suc.IH [where e = ?e])
    show "\<forall>ta. \<exists>t'\<ge>ta. rx_ready K hw (after_pop d t) t'" using Suc.prems(1) by simp
    show "e (Suc 0) = s0" using Suc.prems(3) by simp
    show "e (Suc 1) = ?x" using Suc.prems(4) [rule_format, of 0] by simp
    show "\<forall>i. e (Suc (i + 2)) = rx_samples hw (rx_popped (after_pop d t) + i)"
      using Suc.prems(4) by (auto dest: spec [where x = "Suc i" for i])
    show "zero_pair_at ?e m" using Suc.prems(5) by (simp add: zero_pair_at_def)
    show "\<forall>i<m. \<not> zero_pair_at ?e i"
    proof (intro allI impI)
      fix i assume "i < m"
      then have "\<not> zero_pair_at e (Suc i)" using Suc.prems(6) by simp
      then show "\<not> zero_pair_at ?e i" by (simp add: zero_pair_at_def)
    qed
    show "unat (n + 1) + m \<le> length (tmp[unat n := ?x])"
      using Suc.prems(7) by (simp add: unat_succ_small [OF n9])
    show "length (tmp[unat n := ?x]) = 9" using Suc.prems(8) by simp
  qed
  then show ?case by (auto simp: step)
qed

lemma loop_fill:
  assumes "\<forall>t. \<exists>t'\<ge>t. rx_ready K hw d t'"
      and "e 0 = s1" and "e 1 = s0" and "\<forall>i. e (i + 2) = rx_samples hw (rx_popped d + i)"
      and "\<forall>i\<le>m. \<not> zero_pair_at e i"
      and "unat n + m = length tmp" and "length tmp = 9"
  shows "synch_frame_loop K hw s0 s1 tmp n d = Some (Inl (Tmp_out_of_bounds 9))"
  using assms
proof (induction m arbitrary: e s0 s1 tmp n d)
  case 0
  from "0.prems"(5) have "\<not> zero_pair_at e 0" by blast
  with "0.prems"(2,3) have cont: "s0 \<noteq> 0 \<or> s1 \<noteq> 0"
    by (auto simp: zero_pair_at_def)
  from "0.prems"(6,7) have full: "\<not> unat n < length tmp" and n9: "unat n = 9" by simp_all
  show ?case
    using loop_next_overflow [OF cont "0.prems"(1) full] n9 by simp
next
  case (Suc m)
  from Suc.prems(5) have "\<not> zero_pair_at e 0" by blast
  with Suc.prems(2,3) have cont: "s0 \<noteq> 0 \<or> s1 \<noteq> 0"
    by (auto simp: zero_pair_at_def)
  from Suc.prems(6,7) have room: "unat n < length tmp" and n9: "unat n < 9" by simp_all
  let ?x = "rx_samples hw (rx_popped d)"
  from loop_next [OF cont Suc.prems(1) room] obtain t where
    step: "synch_frame_loop K hw s0 s1 tmp n d
             = synch_frame_loop K hw ?x s0 (tmp[unat n := ?x]) (n + 1) (after_pop d t)"
    by blast
  let ?e = "\<lambda>i. e (Suc i)"
  have "synch_frame_loop K hw ?x s0 (tmp[unat n := ?x]) (n + 1) (after_pop d t)
            = Some (Inl (Tmp_out_of_bounds 9))"
  proof (rule Suc.IH [where e = ?e])
    show "\<forall>ta. \<exists>t'\<ge>ta. rx_ready K hw (after_pop d t) t'" using Suc.prems(1) by simp
    show "e (Suc 0) = s0" using Suc.prems(3) by simp
    show "e (Suc 1) = ?x" using Suc.prems(4) [rule_format, of 0] by simp
    show "\<forall>i. e (Suc (i + 2)) = rx_samples hw (rx_popped (after_pop d t) + i)"
      using Suc.prems(4) by (auto dest: spec [where x = "Suc i" for i])
    show "\<forall>i\<le>m. \<not> zero_pair_at ?e i"
    proof (intro allI impI)
      fix i assume "i \<le> m"
      then have "Suc i \<le> Suc m" by simp
      with Suc.prems(5) have "\<not> zero_pair_at e (Suc i)" by blast
      then show "\<not> zero_pair_at ?e i" by (simp add: zero_pair_at_def)
    qed
    show "unat (n + 1) + m = length (tmp[unat n := ?x])"
      using Suc.prems(6) by (simp add: unat_succ_small [OF n9])
    show "length (tmp[unat n := ?x]) = 9" using Suc.prems(7) by simp
  qed
  then show ?case by (simp add: step)
qed

lemma update_bits_fields [simp]:
  "rx_popped (rpi_reg_update_bits hw CS_A_REG m v d) = rx_popped d"
  "klog (rpi_reg_update_bits hw CS_A_REG m v d) = klog d"
  "io_clock (rpi_reg_update_bits hw CS_A_REG m v d) = Suc (Suc (io_clock d))"
  by (simp_all add: rpi_reg_update_bits_def rpi_reg_write_def read_cs Let_def)

lemma fair_rx_ready:
  "\<forall>t v. \<exists>t'\<ge>t. reg_in hw t' CS_A_REG v AND I2S_RXD K \<noteq> 0
     \<Longrightarrow> \<forall>t. \<exists>t'\<ge>t. rx_ready K hw d t'"
  by (simp add: rx_ready_def)

text \<open>The two samples the loop starts with, followed by the stream.\<close>

lemma preceded_pairs:
  fixes s :: "nat \<Rightarrow> u32"
  defines "e \<equiv> \<lambda>i. if i < 2 then 0xff else s (i - 2)"
  shows "zero_pair_at e i \<longleftrightarrow> 2 \<le> i \<and> zero_pair_at s (i - 2)"
proof (cases "i < 2")
  case True
  then show ?thesis by (simp add: e_def zero_pair_at_def)
next
  case False
  then have "Suc i - 2 = Suc (i - 2)" by simp
  with False show ?thesis by (simp add: e_def zero_pair_at_def)
qed

lemma synch_frame_discards:
  assumes "\<forall>t v. \<exists>t'\<ge>t. reg_in hw t' CS_A_REG v AND I2S_RXD K \<noteq> 0"
      and "zero_pair_at (rx_stream hw d) N"
      and "\<forall>i<N. \<not> zero_pair_at (rx_stream hw d) i"
      and "N + 2 \<le> 9"
  shows "\<exists>d'. bcm2835_i2s_synch_frame K hw d msk = Some (Inr d')
           \<and> klog d' = klog d @ [Printk_discarded (of_nat (N + 2))]
           \<and> rx_popped d' = rx_popped d + (N + 2)"
proof -
  let ?d0 = "rpi_reg_update_bits hw CS_A_REG msk msk d"
  let ?e = "\<lambda>i. if i < 2 then 0xff else rx_stream hw d (i - 2)"
  have pairs: "zero_pair_at ?e i \<longleftrightarrow> 2 \<le> i \<and> zero_pair_at (rx_stream hw d) (i - 2)" for i
    by (rule preceded_pairs)
  have "\<exists>tmp' d'. synch_frame_loop K hw 0xff 0xff (replicate 9 0) 0 ?d0
            = Some (Inr (0 + of_nat (N + 2), tmp', d'))
          \<and> rx_popped d' = rx_popped ?d0 + (N + 2) \<and> klog d' = klog ?d0"
  proof (rule loop_run [where e = ?e])
    show "\<forall>t. \<exists>t'\<ge>t. rx_ready K hw ?d0 t'" by (rule fair_rx_ready [OF assms(1)])
    show "?e 0 = 0xff" "?e 1 = 0xff" by simp_all
    show "\<forall>i. ?e (i + 2) = rx_samples hw (rx_popped ?d0 + i)"
      by (simp add: rx_stream_def)
    show "zero_pair_at ?e (N + 2)" using assms(2) by (simp add: pairs)
    show "\<forall>i<N + 2. \<not> zero_pair_at ?e i"
    proof (intro allI impI)
      fix i assume "i < N + 2"
      then have "i - 2 < N \<or> i < 2" by arith
      with assms(3) show "\<not> zero_pair_at ?e i" by (auto simp: pairs)
    qed
    show "unat (0 :: u32) + (N + 2) \<le> length (replicate 9 (0 :: u32))" using assms(4) by simp
    show "length (replicate 9 (0 :: u32)) = 9" by simp
  qed
  then obtain tmp' d' where
    "synch_frame_loop K hw 0xff 0xff (replicate 9 0) 0 ?d0 = Some (Inr (of_nat (N + 2), tmp', d'))"
    "rx_popped d' = rx_popped d + (N + 2)" "klog d' = klog d"
    by auto
  then show ?thesis
    by (simp add: bcm2835_i2s_synch_frame_def)
qed

lemma synch_frame_overflows:
  assumes "\<forall>t v. \<exists>t'\<ge>t. reg_in hw t' CS_A_REG v AND I2S_RXD K \<noteq> 0"
      and "\<forall>i<8. \<not> zero_pair_at (rx_stream hw d) i"
  shows "bcm2835_i2s_synch_frame K hw d msk = Some (Inl (Tmp_out_of_bounds 9))"
proof -
  let ?d0 = "rpi_reg_update_bits hw CS_A_REG msk msk d"
  let ?e = "\<lambda>i. if i < 2 then 0xff else rx_stream hw d (i - 2)"
  have pairs: "zero_pair_at ?e i \<longleftrightarrow> 2 \<le> i \<and> zero_pair_at (rx_stream hw d) (i - 2)" for i
    by (rule preceded_pairs)
  have "synch_frame_loop K hw 0xff 0xff (replicate 9 0) 0 ?d0 = Some (Inl (Tmp_out_of_bounds 9))"
  proof (rule loop_fill [where e = ?e and m = 9])
    show "\<forall>t. \<exists>t'\<ge>t. rx_ready K hw ?d0 t'" by (rule fair_rx_ready [OF assms(1)])
    show "?e 0 = 0xff" "?e 1 = 0xff" by simp_all
    show "\<forall>i. ?e (i + 2) = rx_samples hw (rx_popped ?d0 + i)"
      by (simp add: rx_stream_def)
    show "\<forall>i\<le>9. \<not> zero_pair_at ?e i"
    proof (intro allI impI)
      fix i :: nat assume "i \<le> 9"
      then have "i - 2 < 8" by arith
      with assms(2) show "\<not> zero_pair_at ?e i" by (auto simp: pairs)
    qed
    show "unat (0 :: u32) + 9 = length (replicate 9 (0 :: u32))" by simp
    show "length (replicate 9 (0 :: u32)) = 9" by simp
  qed
  then show ?thesis
    by (simp add: bcm2835_i2s_synch_frame_def)
qed

lemma idle_machine_fields:
  "klog idle_machine = []" "rx_popped idle_machine = 0" "io_clock idle_machine = 0"
  "audio_hat idle_machine = ''elk-pi''"
  by (simp_all add: idle_machine_def)

lemma ready_hw_fair:
  "\<forall>t v. \<exists>t'\<ge>t. reg_in (ready_hw s) t' CS_A_REG v AND I2S_RXD bcm2835_consts \<noteq> 0"
  by (auto simp: ready_hw_def bcm2835_consts_def)

text \<open>The count with the samples numbered from 1: when the first pair of consecutive zero
  samples is the \<open>N\<close>-th and the \<open>N + 1\<close>-th sample and the array holds them
  (\<open>N + 1 \<le> 9\<close>), the loop returns when it has popped exactly these \<open>N + 1\<close> samples, and
  reports \<open>N + 1\<close>.\<close>

lemma synch_frame_count_within_tmp:
  assumes "\<forall>t v. \<exists>t'\<ge>t. reg_in hw t' CS_A_REG v AND I2S_RXD K \<noteq> 0"
      and "1 \<le> N"
      and "zero_pair_at (rx_stream hw d) (N - 1)"
      and "\<forall>i<N - 1. \<not> zero_pair_at (rx_stream hw d) i"
      and "N + 1 \<le> 9"
  shows "\<exists>d'. bcm2835_i2s_synch_frame K hw d msk = Some (Inr d')
           \<and> klog d' = klog d @ [Printk_discarded (of_nat (N + 1))]
           \<and> rx_popped d' = rx_popped d + (N + 1)"
proof -
  from assms(2,5) have room: "N - 1 + 2 \<le> 9" and eq: "N - 1 + 2 = N + 1" by simp_all
  from synch_frame_discards [OF assms(1,3,4) room, of msk] show ?thesis
    by (simp only: eq)
qed

text \<open>
  Claim C7. The claim is for every input sample stream: the loop ends when the first two
  consecutive zeros have been popped, and reports their count. Up to nine samples it
  does. With ten non-zero samples before the zeros (the first pair of zeros is the 11th
  and 12th sample) the loop does not reach them: its tenth round stores at index 9 of the
  nine-element array, and no count is reported.
\<close>

theorem synch_frame_faults_before_zero_pair:
  "rx_stream (ready_hw ten_then_zeros) idle_machine 9 \<noteq> 0
   \<and> zero_pair_at (rx_stream (ready_hw ten_then_zeros) idle_machine) 10
   \<and> bcm2835_i2s_synch_frame bcm2835_consts (ready_hw ten_then_zeros) idle_machine 6
       = Some (Inl (Tmp_out_of_bounds 9))"
proof -
  have "\<forall>i<8. \<not> zero_pair_at (rx_stream (ready_hw ten_then_zeros) idle_machine) i"
    by (simp add: zero_pair_at_def rx_stream_def ready_hw_def ten_then_zeros_def idle_machine_def)
  from synch_frame_overflows [OF ready_hw_fair this, of 6]
  show ?thesis
    by (simp add: zero_pair_at_def rx_stream_def ready_hw_def ten_then_zeros_def idle_machine_def)
qed

text \<open>
  Claim C8. The claim asks that every store \<open>tmp[discarded] = samples[0]\<close> stays inside
  \<open>tmp\<close>, whatever the number of discarded samples. With a stream of nine non-zero samples
  followed by zeros, the tenth round of the loop stores at index 9 of the nine-element
  array.
\<close>

theorem synch_frame_writes_past_tmp:
  "bcm2835_i2s_synch_frame bcm2835_consts (ready_hw nine_then_zeros) idle_machine 6
     = Some (Inl (Tmp_out_of_bounds 9))"
proof (rule synch_frame_overflows [OF ready_hw_fair])
  show "\<forall>i<8. \<not> zero_pair_at (rx_stream (ready_hw nine_then_zeros) idle_machine) i"
    by (simp add: zero_pair_at_def rx_stream_def ready_hw_def nine_then_zeros_def idle_machine_def)
qed

subsection \<open>The start command\<close>

lemma loop_pops:
  assumes run: "synch_frame_loop K hw s0 s1 tmp n d = Some y"
  shows "case y of
           Inl f \<Rightarrow> True
         | Inr (n', tmp', d') \<Rightarrow>
             rx_popped d + (if s0 \<noteq> 0 then 2 else if s1 \<noteq> 0 then 1 else 0) \<le> rx_popped d'
             \<and> klog d' = klog d"
proof (rule synch_frame_loop.raw_induct
    [where P = "\<lambda>K hw s0 s1 tmp n d y. case y of
           Inl f \<Rightarrow> True
         | Inr (n', tmp', d') \<Rightarrow>
             rx_popped d + (if s0 \<noteq> 0 then 2 else if s1 \<noteq> 0 then 1 else 0) \<le> rx_popped d'
             \<and> klog d' = klog d", OF _ run], goal_cases)
  case (1 loop K hw s0 s1 tmp n d y)
  show ?case
  proof (cases "s0 \<noteq> 0 \<or> s1 \<noteq> 0")
    case False
    with 1(2) show ?thesis by auto
  next
    case cont: True
    show ?thesis
    proof (cases "fst (rpi_reg_read hw CS_A_REG d) AND I2S_RXD K \<noteq> 0")
      case False
      with cont 1(2) have "loop K hw s0 s1 tmp n (snd (rpi_reg_read hw CS_A_REG d)) = Some y"
        by simp
      from 1(1) [OF this] show ?thesis
        by (auto simp: read_cs split: sum.splits)
    next
      case ready: True
      show ?thesis
      proof (cases "unat n < length tmp")
        case False
        with cont ready 1(2) show ?thesis by auto
      next
        case True
        let ?d3 = "after_pop d (io_clock d)"
        let ?x = "rx_samples hw (rx_popped d)"
        from True cont ready 1(2)
        have "loop K hw ?x s0 (tmp[unat n := ?x]) (n + 1) ?d3 = Some y"
          by (simp add: read_cs read_fifo rpi_reg_write_def after_pop_def)
        from 1(1) [OF this] cont show ?thesis
          by (auto split: sum.splits if_splits)
      qed
    qed
  qed
qed

lemma synch_frame_pops:
  assumes "bcm2835_i2s_synch_frame K hw d msk = Some (Inr d')"
  shows "rx_popped d + 2 \<le> rx_popped d'" and "\<exists>n. klog d' = klog d @ [Printk_discarded n]"
proof -
  let ?d0 = "rpi_reg_update_bits hw CS_A_REG msk msk d"
  from assms obtain n tmp' d1 where
    run: "synch_frame_loop K hw 0xff 0xff (replicate 9 0) 0 ?d0 = Some (Inr (n, tmp', d1))"
    and d': "d' = d1\<lparr>klog := klog d1 @ [Printk_discarded n]\<rparr>"
    by (auto simp: bcm2835_i2s_synch_frame_def split: option.splits sum.splits)
  from loop_pops [OF run] have "rx_popped ?d0 + 2 \<le> rx_popped d1" "klog d1 = klog ?d0"
    by simp_all
  then show "rx_popped d + 2 \<le> rx_popped d'" and "\<exists>n. klog d' = klog d @ [Printk_discarded n]"
    by (simp_all add: d')
qed

lemma start_direct:
  assumes "audio_hat d \<noteq> ''elk-pi''"
  shows "bcm2835_i2s_start_stop K hw d (I2S_START_CMD K)
           = Some (Inr (rpi_reg_update_bits hw CS_A_REG (I2S_RXON K OR I2S_TXON K)
                          (I2S_RXON K OR I2S_TXON K) d))"
  using assms by (simp add: bcm2835_i2s_start_stop_def Let_def)

lemma start_elk_pi:
  assumes "audio_hat d = ''elk-pi''"
  shows "bcm2835_i2s_start_stop K hw d (I2S_START_CMD K)
           = bcm2835_i2s_synch_frame K hw d (I2S_RXON K OR I2S_TXON K)"
  using assms by (simp add: bcm2835_i2s_start_stop_def Let_def)

lemma enable_mask_set:
  "io_mem (rpi_reg_update_bits hw CS_A_REG m m d) CS_A_REG AND m = m"
  by (simp add: update_bits_mem)

lemma configure_hat_roles:
  "bit_clock_master (fst (configure_hat K kenv fl d)) = (audio_hat d = ''hifi-berry'')"
  "frame_sync_master (fst (configure_hat K kenv fl d)) = (audio_hat d = ''hifi-berry'')"
  by (simp_all add: configure_hat_def Let_def)

text \<open>
  Claim C4, as amended. The start command runs the discard loop if and only if the hat's
  name is \<open>elk-pi\<close>. For every other name it asserts the RX/TX enable mask with one
  update of the control/status register, pops no sample and logs nothing. For \<open>elk-pi\<close>
  it is the discard loop: every start that returns has popped at least two samples and
  logged the discard count. \<open>elk-pi\<close> is a profile that \<open>bcm2835_i2s_configure\<close> leaves
  bit-clock and frame-sync slave; the only profile it makes bit-clock master is
  \<open>hifi-berry\<close>, which therefore starts without the loop.
\<close>

theorem start_discard_loop_iff_elk_pi:
  "(audio_hat d \<noteq> ''elk-pi'' \<longrightarrow>
      (\<exists>d'. bcm2835_i2s_start_stop K hw d (I2S_START_CMD K) = Some (Inr d')
         \<and> d' = rpi_reg_update_bits hw CS_A_REG (I2S_RXON K OR I2S_TXON K)
                  (I2S_RXON K OR I2S_TXON K) d
         \<and> io_mem d' CS_A_REG AND (I2S_RXON K OR I2S_TXON K) = I2S_RXON K OR I2S_TXON K
         \<and> rx_popped d' = rx_popped d \<and> klog d' = klog d))
   \<and> (audio_hat d = ''elk-pi'' \<longrightarrow>
        bcm2835_i2s_start_stop K hw d (I2S_START_CMD K)
          = bcm2835_i2s_synch_frame K hw d (I2S_RXON K OR I2S_TXON K)
        \<and> (\<forall>d'. bcm2835_i2s_start_stop K hw d (I2S_START_CMD K) = Some (Inr d') \<longrightarrow>
              rx_popped d + 2 \<le> rx_popped d' \<and> (\<exists>n. klog d' = klog d @ [Printk_discarded n]))
        \<and> \<not> bit_clock_master (fst (configure_hat K kenv fl d))
        \<and> \<not> frame_sync_master (fst (configure_hat K kenv fl d)))
   \<and> (bit_clock_master (fst (configure_hat K kenv fl d)) \<longrightarrow> audio_hat d = ''hifi-berry'')"
proof (intro conjI impI)
  assume other: "audio_hat d \<noteq> ''elk-pi''"
  show "\<exists>d'. bcm2835_i2s_start_stop K hw d (I2S_START_CMD K) = Some (Inr d')
         \<and> d' = rpi_reg_update_bits hw CS_A_REG (I2S_RXON K OR I2S_TXON K)
                  (I2S_RXON K OR I2S_TXON K) d
         \<and> io_mem d' CS_A_REG AND (I2S_RXON K OR I2S_TXON K) = I2S_RXON K OR I2S_TXON K
         \<and> rx_popped d' = rx_popped d \<and> klog d' = klog d"
    by (simp add: start_direct [OF other] enable_mask_set)
next
  assume elk: "audio_hat d = ''elk-pi''"
  show "bcm2835_i2s_start_stop K hw d (I2S_START_CMD K)
          = bcm2835_i2s_synch_frame K hw d (I2S_RXON K OR I2S_TXON K)"
    by (rule start_elk_pi [OF elk])
  show "\<forall>d'. bcm2835_i2s_start_stop K hw d (I2S_START_CMD K) = Some (Inr d') \<longrightarrow>
              rx_popped d + 2 \<le> rx_popped d' \<and> (\<exists>n. klog d' = klog d @ [Printk_discarded n])"
    using synch_frame_pops [of K hw d "I2S_RXON K OR I2S_TXON K"]
    by (simp add: start_elk_pi [OF elk])
  show "\<not> bit_clock_master (fst (configure_hat K kenv fl d))"
    using elk by (simp add: configure_hat_roles)
  show "\<not> frame_sync_master (fst (configure_hat K kenv fl d))"
    using elk by (simp add: configure_hat_roles)
next
  assume "bit_clock_master (fst (configure_hat K kenv fl d))"
  then show "audio_hat d = ''hifi-berry''" by (simp add: configure_hat_roles)
qed

lemma hifi_berry_fields:
  "audio_hat hifi_berry_machine = ''hifi-berry''" "klog hifi_berry_machine = []"
  "rx_popped hifi_berry_machine = 0" "io_clock hifi_berry_machine = 0"
  by (simp_all add: hifi_berry_machine_def idle_machine_def)

theorem start_discard_loop_iff_elk_pi_witness:
  "(\<exists>d'. bcm2835_i2s_start_stop bcm2835_consts (ready_hw two_then_zeros) hifi_berry_machine 1
            = Some (Inr d')
        \<and> rx_popped d' = 0 \<and> klog d' = [])
   \<and> (\<exists>d'. bcm2835_i2s_start_stop bcm2835_consts (ready_hw two_then_zeros) idle_machine 1
            = Some (Inr d')
        \<and> 2 \<le> rx_popped d')
   \<and> bit_clock_master (fst (configure_hat bcm2835_consts granting_kernel 64 hifi_berry_machine))
   \<and> audio_hat hifi_berry_machine = ''hifi-berry''"
proof -
  have cmd: "I2S_START_CMD bcm2835_consts = 1" by (simp add: bcm2835_consts_def)
  have msk: "I2S_RXON bcm2835_consts OR I2S_TXON bcm2835_consts = 6"
    by (simp add: bcm2835_consts_def)
  note hb = start_discard_loop_iff_elk_pi
    [of hifi_berry_machine bcm2835_consts "ready_hw two_then_zeros" granting_kernel 64]
  note elk = start_discard_loop_iff_elk_pi
    [of idle_machine bcm2835_consts "ready_hw two_then_zeros" granting_kernel 64]
  have one: "\<exists>d'. bcm2835_i2s_start_stop bcm2835_consts (ready_hw two_then_zeros)
                    hifi_berry_machine 1 = Some (Inr d')
        \<and> rx_popped d' = 0 \<and> klog d' = []"
    using hb by (simp add: hifi_berry_fields cmd)
  have zp: "zero_pair_at (rx_stream (ready_hw two_then_zeros) idle_machine) 2"
    by (simp add: zero_pair_at_def rx_stream_def ready_hw_def two_then_zeros_def idle_machine_def)
  have first: "\<forall>i<2. \<not> zero_pair_at (rx_stream (ready_hw two_then_zeros) idle_machine) i"
    by (simp add: zero_pair_at_def rx_stream_def ready_hw_def two_then_zeros_def idle_machine_def)
  have room: "(2::nat) + 2 \<le> 9" by simp
  from synch_frame_discards [OF ready_hw_fair zp first room, of 6] obtain d' where
    run: "bcm2835_i2s_synch_frame bcm2835_consts (ready_hw two_then_zeros) idle_machine 6
            = Some (Inr d')"
    by blast
  with elk have "bcm2835_i2s_start_stop bcm2835_consts (ready_hw two_then_zeros) idle_machine 1
            = Some (Inr d') \<and> 2 \<le> rx_popped d'"
    by (auto simp: idle_machine_fields cmd msk numeral_2_eq_2)
  then have two: "\<exists>d'. bcm2835_i2s_start_stop bcm2835_consts (ready_hw two_then_zeros)
                    idle_machine 1 = Some (Inr d') \<and> 2 \<le> rx_popped d'"
    by blast
  have three: "bit_clock_master (fst (configure_hat bcm2835_consts granting_kernel 64 hifi_berry_machine))"
    by (simp add: configure_hat_roles hifi_berry_fields)
  from one two three show ?thesis by (simp add: hifi_berry_fields)
qed

text \<open>
  Claim C4 as stated ties the loop to the profile for which the peripheral is bit-clock
  and frame-sync master. That profile is \<open>hifi-berry\<close>, and its start, here with a sample
  ready in the FIFO at every poll, returns after the two bus accesses of the register
  update, with no sample popped and nothing logged.
\<close>

theorem start_skips_loop_for_clock_master:
  "bit_clock_master (fst (configure_hat bcm2835_consts granting_kernel 64 hifi_berry_machine))
   \<and> frame_sync_master (fst (configure_hat bcm2835_consts granting_kernel 64 hifi_berry_machine))
   \<and> (\<exists>d'. bcm2835_i2s_start_stop bcm2835_consts (ready_hw (\<lambda>i. 0)) hifi_berry_machine
              (I2S_START_CMD bcm2835_consts) = Some (Inr d')
          \<and> rx_popped d' = 0 \<and> klog d' = [] \<and> io_clock d' = 2)"
  by (simp add: configure_hat_roles start_direct hifi_berry_fields numeral_2_eq_2)

end
